theory Spec2Isabelle
  imports Main "HOL-Library.Multiset"
begin

section \<open>Layout conversion passes (convert_layout.cpp)\<close>

subsection \<open>Graph objects of the host framework\<close>

text \<open>
  A node lives in a store (a list of nodes); its address is its position in the list,
  and \<open>make_shared\<close> appends. An \<open>Output<Node>\<close> is a node together with the index of
  one of its output ports. A \<open>PartialShape\<close> of static rank is the list of its
  dimensions, each an interval of lengths; the passes only move dimensions around.
\<close>

type_synonym node_id = nat
type_synonym node_output = "node_id \<times> nat"

datatype dimension = Dimension int int
type_synonym partial_shape = "dimension list"

datatype element_type =
  boolean | bf16 | f16 | f32 | f64 | i4 | i8 | i16 | i32 | i64 | u1 | u4 | u8 | u16 | u32 | u64

datatype pad_type = EXPLICIT | SAME_LOWER | SAME_UPPER | VALID

datatype rounding_type = FLOOR | CEIL

text \<open>
  The operators the passes read and build. The arguments of each constructor are the
  attributes in the order of the C++ constructor the passes call; the last argument of the
  four Arm operators is the declared output shape. \<open>Host_op\<close> stands for every other
  operator of the host, with its type name and its number of outputs.
\<close>

datatype operation =
    Constant element_type "nat list" "int list"
  | Transpose
  | ArmConvolution "nat list" "int list" "int list" "nat list" pad_type partial_shape
  | ArmMaxPoolV1 "nat list" "nat list" "nat list" "nat list" rounding_type pad_type partial_shape
  | ArmMaxPoolV8 "nat list" "nat list" "nat list" "nat list" "nat list" rounding_type pad_type
      element_type int partial_shape
  | ArmAvgPool "nat list" "nat list" "nat list" "nat list" bool rounding_type pad_type
      partial_shape
  | Host_op string nat

record node =
  node_op :: operation
  inputs :: "node_output list"
  output_partial_shape :: "partial_shape list"
  friendly_name :: string
  rt_info :: "(string \<times> string) list"

type_synonym graph = "node list"

text \<open>
  What the passes take from the host and cannot see: the exclusion predicate
  \<open>transformation_callback\<close> of the pass configuration, the shape inference that a node
  constructor runs, and the unique name \<open>get_name\<close> that a node without a friendly name
  answers to.
\<close>

record host =
  transformation_callback :: "graph \<Rightarrow> node_id \<Rightarrow> bool"
  validate_and_infer_types :: "graph \<Rightarrow> operation \<Rightarrow> node_output list \<Rightarrow> partial_shape list"
  get_name :: "node_id \<Rightarrow> string"

datatype exn = Unsupported_rank | Out_of_range | Assertion_failed

text \<open>Sequencing of calls that may throw: the first exception ends the computation.\<close>

definition bind_exn :: "exn + 'a \<Rightarrow> ('a \<Rightarrow> exn + 'b) \<Rightarrow> exn + 'b" where
  "bind_exn m f = (case m of Inl e \<Rightarrow> Inl e | Inr x \<Rightarrow> f x)"

subsection \<open>The host calls the passes make\<close>

fun get_output_size :: "operation \<Rightarrow> nat" where
  "get_output_size (ArmMaxPoolV8 _ _ _ _ _ _ _ _ _ _) = 2"
| "get_output_size (Host_op _ k) = k"
| "get_output_size _ = 1"

definition get_input_size :: "node \<Rightarrow> nat" where
  "get_input_size nd = length (inputs nd)"

definition input_value :: "node \<Rightarrow> nat \<Rightarrow> exn + node_output" where
  "input_value nd i = (if i < length (inputs nd) then Inr (inputs nd ! i) else Inl Out_of_range)"

definition get_output_partial_shape :: "node \<Rightarrow> nat \<Rightarrow> exn + partial_shape" where
  "get_output_partial_shape nd i =
     (if i < length (output_partial_shape nd) then Inr (output_partial_shape nd ! i)
      else Inl Out_of_range)"

text \<open>
  \<open>std::make_shared<Op>(inputs, attributes)\<close>: a fresh node, with no friendly name and no
  runtime information, whose output shapes the host infers.
\<close>

definition make_shared :: "host \<Rightarrow> graph \<Rightarrow> operation \<Rightarrow> node_output list \<Rightarrow> node_id \<times> graph" where
  "make_shared h g opn ins =
     (length g,
      g @ [\<lparr>node_op = opn, inputs = ins,
            output_partial_shape = validate_and_infer_types h g opn ins,
            friendly_name = [], rt_info = []\<rparr>])"

definition Constant_create :: "host \<Rightarrow> graph \<Rightarrow> element_type \<Rightarrow> nat list \<Rightarrow> int list \<Rightarrow> node_id \<times> graph" where
  "Constant_create h g et shape values = make_shared h g (Constant et shape values) []"

definition get_friendly_name :: "host \<Rightarrow> graph \<Rightarrow> node_id \<Rightarrow> string" where
  "get_friendly_name h g n =
     (if friendly_name (g ! n) = [] then get_name h n else friendly_name (g ! n))"

definition set_friendly_name :: "graph \<Rightarrow> node_id \<Rightarrow> string \<Rightarrow> graph" where
  "set_friendly_name g n s = g[n := (g ! n)\<lparr>friendly_name := s\<rparr>]"

text \<open>\<open>copy_runtime_info(from, {to...})\<close>: each target receives the runtime information of the source.\<close>

fun copy_runtime_info :: "graph \<Rightarrow> node_id \<Rightarrow> node_id list \<Rightarrow> graph" where
  "copy_runtime_info g from [] = g"
| "copy_runtime_info g from (t # ts) =
     copy_runtime_info (g[t := (g ! t)\<lparr>rt_info := rt_info (g ! from)\<rparr>]) from ts"

text \<open>
  \<open>replace_node(target, replacement_values)\<close>: after the assertion that there is one
  replacement per output of the target, every input in the graph that is connected to
  output \<open>i\<close> of the target is reconnected to the \<open>i\<close>-th replacement value.
  \<open>replace_node(target, replacement)\<close> with a node does the same with the outputs of the
  replacement node, which must be as many as the target's.
\<close>

definition replace_source_output :: "node_id \<Rightarrow> node_output list \<Rightarrow> node_output \<Rightarrow> node_output" where
  "replace_source_output target replacement_values src =
     (if fst src = target \<and> snd src < length replacement_values
      then replacement_values ! snd src else src)"

definition replace_node_values :: "graph \<Rightarrow> node_id \<Rightarrow> node_output list \<Rightarrow> exn + graph" where
  "replace_node_values g target replacement_values =
     (if get_output_size (node_op (g ! target)) \<noteq> length replacement_values
      then Inl Assertion_failed
      else Inr (map (\<lambda>nd. nd\<lparr>inputs :=
                  map (replace_source_output target replacement_values) (inputs nd)\<rparr>) g))"

definition replace_node :: "graph \<Rightarrow> node_id \<Rightarrow> node_id \<Rightarrow> exn + graph" where
  "replace_node g target replacement =
     replace_node_values g target
       (map (\<lambda>i. (replacement, i)) [0..<get_output_size (node_op (g ! replacement))])"

subsection \<open>The permutations and the helpers of the passes\<close>

definition nchw_to_nhwc :: "int list" where
  "nchw_to_nhwc = [0, 2, 3, 1]"

definition nhwc_to_nchw :: "int list" where
  "nhwc_to_nchw = [0, 3, 1, 2]"

definition ncdhw_to_ndhwc :: "int list" where
  "ncdhw_to_ndhwc = [0, 2, 3, 4, 1]"

definition ndhwc_to_ncdhw :: "int list" where
  "ndhwc_to_ncdhw = [0, 4, 1, 2, 3]"

definition transpose_on_input :: "host \<Rightarrow> graph \<Rightarrow> node_output \<Rightarrow> nat \<Rightarrow> exn + (node_id \<times> graph)" where
  "transpose_on_input h g input rank =
     (if rank = 4 then
        (let (c, g1) = Constant_create h g i32 [length nchw_to_nhwc] nchw_to_nhwc
         in Inr (make_shared h g1 Transpose [input, (c, 0)]))
      else if rank = 5 then
        (let (c, g1) = Constant_create h g i32 [length ncdhw_to_ndhwc] ncdhw_to_ndhwc
         in Inr (make_shared h g1 Transpose [input, (c, 0)]))
      else Inl Unsupported_rank)"

definition transpose_on_output :: "host \<Rightarrow> graph \<Rightarrow> node_output \<Rightarrow> nat \<Rightarrow> exn + (node_id \<times> graph)" where
  "transpose_on_output h g input rank =
     (if rank = 4 then
        (let (c, g1) = Constant_create h g i32 [length nhwc_to_nchw] nhwc_to_nchw
         in Inr (make_shared h g1 Transpose [input, (c, 0)]))
      else if rank = 5 then
        (let (c, g1) = Constant_create h g i32 [length ndhwc_to_ncdhw] ndhwc_to_ncdhw
         in Inr (make_shared h g1 Transpose [input, (c, 0)]))
      else Inl Unsupported_rank)"

text \<open>
  \<open>perm[i]\<close> on the vector of ints and \<open>shape[k]\<close> on the shape: a read outside the
  container is an \<open>Out_of_range\<close> failure of the model.
\<close>

definition perm_at :: "int list \<Rightarrow> nat \<Rightarrow> exn + int" where
  "perm_at perm i = (if i < length perm then Inr (perm ! i) else Inl Out_of_range)"

definition shape_at :: "partial_shape \<Rightarrow> int \<Rightarrow> exn + dimension" where
  "shape_at shape k =
     (if 0 \<le> k \<and> nat k < length shape then Inr (shape ! nat k) else Inl Out_of_range)"

function push_back_loop ::
  "partial_shape \<Rightarrow> int list \<Rightarrow> nat \<Rightarrow> nat \<Rightarrow> partial_shape \<Rightarrow> exn + partial_shape" where
  "push_back_loop shape perm i rank new_output_shape =
     (if i < rank then
        bind_exn (perm_at perm i) (\<lambda>k.
        bind_exn (shape_at shape k) (\<lambda>d.
          push_back_loop shape perm (Suc i) rank (new_output_shape @ [d])))
      else Inr new_output_shape)"
  by pat_completeness auto
termination
  by (relation "measure (\<lambda>(shape, perm, i, rank, acc). rank - i)") auto

declare push_back_loop.simps [simp del]

definition transpose_output_shape :: "node \<Rightarrow> nat \<Rightarrow> exn + partial_shape" where
  "transpose_output_shape nd rank =
     bind_exn (get_output_partial_shape nd 0) (\<lambda>shape.
       let perm = (if rank = 4 then nchw_to_nhwc else ncdhw_to_ndhwc)
       in push_back_loop shape perm 0 rank [])"

subsection \<open>The four matcher callbacks\<close>

text \<open>
  Each callback gets the matched root and answers whether it changed the graph; the
  graph it leaves behind is returned with the answer. \<open>ov::as_type_ptr\<close> is the case
  distinction on the operator of the root.
\<close>

definition ConvertArmConvolutionLayout_callback ::
  "host \<Rightarrow> graph \<Rightarrow> node_id \<Rightarrow> exn + (bool \<times> graph)" where
  "ConvertArmConvolutionLayout_callback h g node =
     (if transformation_callback h g node then Inr (False, g)
      else case node_op (g ! node) of
        ArmConvolution strides pads_begin pads_end dilations auto_pad declared \<Rightarrow>
          bind_exn (get_output_partial_shape (g ! node) 0) (\<lambda>shape.
          let rank = length shape in
          if rank < 4 \<or> rank > 5 then Inr (False, g)
          else
            bind_exn (input_value (g ! node) 0) (\<lambda>in0.
            bind_exn (transpose_on_input h g in0 rank) (\<lambda>(activations_transpose, g1).
            bind_exn (input_value (g1 ! node) 1) (\<lambda>in1.
            bind_exn (transpose_on_input h g1 in1 rank) (\<lambda>(weights_transpose, g2).
            bind_exn (transpose_output_shape (g2 ! node) rank) (\<lambda>output_shape.
            bind_exn
              (if get_input_size (g2 ! node) > 2 then
                 bind_exn (input_value (g2 ! node) 2) (\<lambda>in2.
                   Inr (make_shared h g2
                     (ArmConvolution strides pads_begin pads_end dilations auto_pad output_shape)
                     [(activations_transpose, 0), (weights_transpose, 0), in2]))
               else
                 Inr (make_shared h g2
                   (ArmConvolution strides pads_begin pads_end dilations auto_pad output_shape)
                   [(activations_transpose, 0), (weights_transpose, 0)]))
              (\<lambda>(new_conv, g3).
            bind_exn (transpose_on_output h g3 (new_conv, 0) rank) (\<lambda>(transpose, g4).
            let g5 = set_friendly_name g4 transpose (get_friendly_name h g4 node);
                g6 = copy_runtime_info g5 node
                       [new_conv, activations_transpose, weights_transpose, transpose]
            in bind_exn (replace_node g6 node transpose) (\<lambda>g7. Inr (True, g7))))))))))
      | _ \<Rightarrow> Inr (False, g))"

definition ConvertArmMaxPoolV1Layout_callback ::
  "host \<Rightarrow> graph \<Rightarrow> node_id \<Rightarrow> exn + (bool \<times> graph)" where
  "ConvertArmMaxPoolV1Layout_callback h g node =
     (if transformation_callback h g node then Inr (False, g)
      else case node_op (g ! node) of
        ArmMaxPoolV1 strides pads_begin pads_end kernel_shape rounding auto_pad declared \<Rightarrow>
          bind_exn (get_output_partial_shape (g ! node) 0) (\<lambda>shape.
          let rank = length shape in
          if rank < 4 \<or> rank > 5 then Inr (False, g)
          else
            bind_exn (input_value (g ! node) 0) (\<lambda>in0.
            bind_exn (transpose_on_input h g in0 rank) (\<lambda>(activations_transpose, g1).
            bind_exn (transpose_output_shape (g1 ! node) rank) (\<lambda>output_shape.
            let (new_pool, g2) = make_shared h g1
                  (ArmMaxPoolV1 strides pads_begin pads_end kernel_shape rounding auto_pad output_shape)
                  [(activations_transpose, 0)]
            in
            bind_exn (transpose_on_output h g2 (new_pool, 0) rank) (\<lambda>(transpose, g3).
            let g4 = set_friendly_name g3 transpose (get_friendly_name h g3 node);
                g5 = copy_runtime_info g4 node [new_pool, activations_transpose, transpose]
            in bind_exn (replace_node g5 node transpose) (\<lambda>g6. Inr (True, g6)))))))
      | _ \<Rightarrow> Inr (False, g))"

text \<open>
  The axis of MaxPool-8 is an \<open>int64_t\<close>; it is only compared, with \<open>1\<close>, \<open>0\<close> and
  \<open>-rank - 1\<close> for a rank of 4 or 5, so the mathematical integer stands for it.
\<close>

definition ConvertArmMaxPoolV8Layout_callback ::
  "host \<Rightarrow> graph \<Rightarrow> node_id \<Rightarrow> exn + (bool \<times> graph)" where
  "ConvertArmMaxPoolV8Layout_callback h g node =
     (if transformation_callback h g node then Inr (False, g)
      else case node_op (g ! node) of
        ArmMaxPoolV8 strides dilations pads_begin pads_end kernel_shape rounding auto_pad
            index_element_type axis declared \<Rightarrow>
          bind_exn (get_output_partial_shape (g ! node) 0) (\<lambda>shape.
          let rank = length shape in
          if rank < 4 \<or> rank > 5 then Inr (False, g)
          else if axis > 1 \<or> (axis < 0 \<and> axis > - int rank - 1) then Inr (False, g)
          else
            bind_exn (input_value (g ! node) 0) (\<lambda>in0.
            bind_exn (transpose_on_input h g in0 rank) (\<lambda>(activations_transpose, g1).
            bind_exn (transpose_output_shape (g1 ! node) rank) (\<lambda>output_shape.
            let (new_pool, g2) = make_shared h g1
                  (ArmMaxPoolV8 strides dilations pads_begin pads_end kernel_shape rounding auto_pad
                     index_element_type axis output_shape)
                  [(activations_transpose, 0)]
            in
            bind_exn (transpose_on_output h g2 (new_pool, 0) rank) (\<lambda>(transpose, g3).
            let g4 = set_friendly_name g3 transpose (get_friendly_name h g3 node @ ''.0'') in
            bind_exn (transpose_on_output h g4 (new_pool, 1) rank) (\<lambda>(transpose_on_indexes, g5).
            let g6 = set_friendly_name g5 transpose_on_indexes
                       (get_friendly_name h g5 node @ ''.1'');
                g7 = copy_runtime_info g6 node
                       [new_pool, activations_transpose, transpose, transpose_on_indexes]
            in bind_exn
                 (replace_node_values g7 node [(transpose, 0), (transpose_on_indexes, 0)])
                 (\<lambda>g8. Inr (True, g8))))))))
      | _ \<Rightarrow> Inr (False, g))"

definition ConvertArmAvgPoolLayout_callback ::
  "host \<Rightarrow> graph \<Rightarrow> node_id \<Rightarrow> exn + (bool \<times> graph)" where
  "ConvertArmAvgPoolLayout_callback h g node =
     (if transformation_callback h g node then Inr (False, g)
      else case node_op (g ! node) of
        ArmAvgPool strides pads_begin pads_end kernel_shape exclude_pad rounding auto_pad declared \<Rightarrow>
          bind_exn (get_output_partial_shape (g ! node) 0) (\<lambda>shape.
          let rank = length shape in
          if rank < 4 \<or> rank > 5 then Inr (False, g)
          else
            bind_exn (input_value (g ! node) 0) (\<lambda>in0.
            bind_exn (transpose_on_input h g in0 rank) (\<lambda>(activations_transpose, g1).
            bind_exn (transpose_output_shape (g1 ! node) rank) (\<lambda>output_shape.
            let (new_pool, g2) = make_shared h g1
                  (ArmAvgPool strides pads_begin pads_end kernel_shape exclude_pad rounding auto_pad
                     output_shape)
                  [(activations_transpose, 0)]
            in
            bind_exn (transpose_on_output h g2 (new_pool, 0) rank) (\<lambda>(transpose, g3).
            let g4 = set_friendly_name g3 transpose (get_friendly_name h g3 node);
                g5 = copy_runtime_info g4 node [new_pool, activations_transpose, transpose]
            in bind_exn (replace_node g5 node transpose) (\<lambda>g6. Inr (True, g6)))))))
      | _ \<Rightarrow> Inr (False, g))"

text \<open>
  \<open>ConvertLayout\<close> registers the four matchers. A matcher is the operator type that its
  pattern root wraps (\<open>wrap_type<T>\<close>; that the output has a static rank holds of every
  shape of the model) together with its callback.
\<close>

fun is_ArmConvolution :: "operation \<Rightarrow> bool" where
  "is_ArmConvolution (ArmConvolution _ _ _ _ _ _) = True"
| "is_ArmConvolution _ = False"

fun is_ArmMaxPoolV1 :: "operation \<Rightarrow> bool" where
  "is_ArmMaxPoolV1 (ArmMaxPoolV1 _ _ _ _ _ _ _) = True"
| "is_ArmMaxPoolV1 _ = False"

fun is_ArmMaxPoolV8 :: "operation \<Rightarrow> bool" where
  "is_ArmMaxPoolV8 (ArmMaxPoolV8 _ _ _ _ _ _ _ _ _ _) = True"
| "is_ArmMaxPoolV8 _ = False"

fun is_ArmAvgPool :: "operation \<Rightarrow> bool" where
  "is_ArmAvgPool (ArmAvgPool _ _ _ _ _ _ _ _) = True"
| "is_ArmAvgPool _ = False"

definition ConvertLayout ::
  "((operation \<Rightarrow> bool) \<times> (host \<Rightarrow> graph \<Rightarrow> node_id \<Rightarrow> exn + (bool \<times> graph))) list" where
  "ConvertLayout =
     [(is_ArmConvolution, ConvertArmConvolutionLayout_callback),
      (is_ArmMaxPoolV1, ConvertArmMaxPoolV1Layout_callback),
      (is_ArmMaxPoolV8, ConvertArmMaxPoolV8Layout_callback),
      (is_ArmAvgPool, ConvertArmAvgPoolLayout_callback)]"

subsection \<open>Notions the properties are stated with\<close>

text \<open>
  A Transpose with a constant order puts dimension \<open>order[i]\<close> of its input at position
  \<open>i\<close> of its output. Two transposes in a row, the first with order \<open>first\<close>, act as
  one transpose with order \<open>compose_perm first second\<close>.
\<close>

definition apply_transpose :: "int list \<Rightarrow> 'a list \<Rightarrow> 'a list" where
  "apply_transpose order xs = map (\<lambda>k. xs ! nat k) order"


text \<open>
  Node \<open>t\<close> of graph \<open>g\<close> is a Transpose of the value \<open>src\<close> whose order is the
  \<open>i32\<close> constant \<open>order\<close>, as \<open>transpose_on_input\<close> and \<open>transpose_on_output\<close> build it.
\<close>

definition is_transpose :: "graph \<Rightarrow> node_id \<Rightarrow> node_output \<Rightarrow> int list \<Rightarrow> bool" where
  "is_transpose g t src order \<longleftrightarrow>
     t < length g \<and> node_op (g ! t) = Transpose \<and> length (inputs (g ! t)) = 2 \<and>
     inputs (g ! t) ! 0 = src \<and> snd (inputs (g ! t) ! 1) = 0 \<and>
     fst (inputs (g ! t) ! 1) < length g \<and>
     node_op (g ! fst (inputs (g ! t) ! 1)) = Constant i32 [length order] order \<and>
     inputs (g ! fst (inputs (g ! t) ! 1)) = []"

text \<open>
  The permutation each helper uses for a rank, as \<open>transpose_output_shape\<close> selects it
  (\<open>rank == 4 ? nchw_to_nhwc : ncdhw_to_ndhwc\<close>), and its counterpart on the output side.
\<close>

definition to_channel_last :: "nat \<Rightarrow> int list" where
  "to_channel_last rank = (if rank = 4 then nchw_to_nhwc else ncdhw_to_ndhwc)"

definition to_channel_first :: "nat \<Rightarrow> int list" where
  "to_channel_first rank = (if rank = 4 then nhwc_to_nchw else ndhwc_to_ncdhw)"

text \<open>
  \<open>rewired g g' target values\<close>: graph \<open>g'\<close> keeps every node of \<open>g\<close> at its place and
  unchanged, except that each input that was connected to output \<open>i\<close> of \<open>target\<close> is
  connected to \<open>values[i]\<close>; whatever \<open>g'\<close> holds beyond is new.
\<close>

definition rewired :: "graph \<Rightarrow> graph \<Rightarrow> node_id \<Rightarrow> node_output list \<Rightarrow> bool" where
  "rewired g g' target replacement_values \<longleftrightarrow>
     length g \<le> length g' \<and>
     take (length g) g' =
       map (\<lambda>nd. nd\<lparr>inputs := map (replace_source_output target replacement_values) (inputs nd)\<rparr>) g"

text \<open>The kernel attribute of the operators that have one: the three pooling operators.\<close>

fun get_kernel :: "operation \<Rightarrow> nat list option" where
  "get_kernel (ArmMaxPoolV1 strides pads_begin pads_end kernel_shape rounding auto_pad declared) =
     Some kernel_shape"
| "get_kernel (ArmMaxPoolV8 strides dilations pads_begin pads_end kernel_shape rounding auto_pad
     index_element_type axis declared) = Some kernel_shape"
| "get_kernel (ArmAvgPool strides pads_begin pads_end kernel_shape exclude_pad rounding auto_pad
     declared) = Some kernel_shape"
| "get_kernel _ = None"

section \<open>The Mod kernel (mod.hpp)\<close>

text \<open>
  The header declares the class \<open>Mod\<close> with its single member \<open>impl_\<close> (here
  \<open>impl\<close>) of type \<open>ElementwiseBinary<AllElementTypesSwitch, ModOpImpl>\<close>, and the
  signatures of its constructor and of its call operator. A device buffer is the list of
  its elements; the element type that \<open>AllElementTypesSwitch\<close> selects at run time is
  the type parameter of the model, and the stream is left out.
\<close>

text \<open>
  Modelled from the spec: \<open>NumpyBroadcastMapper\<close>, declared in elementwise_binary.cuh,
  which is missing: for an input tensor, the map from the index of an output element to
  the index of the input element that broadcasting pairs with it.
\<close>

record NumpyBroadcastMapper =
  srcIndex :: "nat \<Rightarrow> nat"

text \<open>
  Modelled from the spec: the state of \<open>ElementwiseBinary\<close>, the generic element-wise
  binary dispatcher of elementwise_binary.cuh, which is missing: the three arguments of
  its constructor.
\<close>

record ElementwiseBinary =
  eb_element_type :: element_type
  eb_max_threads_per_block :: nat
  eb_out_num_elements :: nat

text \<open>
  Modelled from the spec: the constructor of \<open>ElementwiseBinary\<close>
  (elementwise_binary.cuh is missing), which keeps the element type, the block size and
  the number of output elements.
\<close>

definition ElementwiseBinary_ctor :: "element_type \<Rightarrow> nat \<Rightarrow> nat \<Rightarrow> ElementwiseBinary" where
  "ElementwiseBinary_ctor element_type max_threads_per_block out_num_elements =
     \<lparr>eb_element_type = element_type, eb_max_threads_per_block = max_threads_per_block,
      eb_out_num_elements = out_num_elements\<rparr>"

text \<open>
  Modelled from the spec: the call operator of \<open>ElementwiseBinary\<close>
  (elementwise_binary.cuh is missing), ``broadcasting arithmetic'': the output holds, for
  each output index, the operation applied to the two input elements that the mappers
  select for this index.
\<close>

definition ElementwiseBinary_call ::
  "('a \<Rightarrow> 'a \<Rightarrow> 'a) \<Rightarrow> ElementwiseBinary \<Rightarrow> 'a list \<Rightarrow> NumpyBroadcastMapper \<Rightarrow>
   'a list \<Rightarrow> NumpyBroadcastMapper \<Rightarrow> 'a list" where
  "ElementwiseBinary_call opimpl eb in0 in0_mapper in1 in1_mapper =
     map (\<lambda>i. opimpl (in0 ! srcIndex in0_mapper i) (in1 ! srcIndex in1_mapper i))
       [0..<eb_out_num_elements eb]"

text \<open>
  Modelled from the spec: \<open>ModOpImpl\<close>, declared in mod.hpp and defined in a file that is
  missing: the ``modulo'' of two elements, in the element type's own arithmetic.
\<close>

definition ModOpImpl :: "'a::modulo \<Rightarrow> 'a \<Rightarrow> 'a" where
  "ModOpImpl in0 in1 = in0 mod in1"

record Mod =
  impl :: ElementwiseBinary

text \<open>
  Modelled from the spec: the body of the constructor of \<open>Mod\<close>, which mod.hpp only
  declares (``a thin generic-dispatch wrapper''): it builds the member from its three
  arguments.
\<close>

definition Mod_ctor :: "element_type \<Rightarrow> nat \<Rightarrow> nat \<Rightarrow> Mod" where
  "Mod_ctor element_type max_threads_per_block out_num_elements =
     \<lparr>impl = ElementwiseBinary_ctor element_type max_threads_per_block out_num_elements\<rparr>"

text \<open>
  Modelled from the spec: the body of \<open>operator()\<close> of \<open>Mod\<close>, which mod.hpp only
  declares (``a thin generic-dispatch wrapper over broadcasting arithmetic''): it hands
  its arguments to the member.
\<close>

definition Mod_call ::
  "Mod \<Rightarrow> ('a::modulo) list \<Rightarrow> NumpyBroadcastMapper \<Rightarrow> 'a list \<Rightarrow> NumpyBroadcastMapper \<Rightarrow>
   'a list" where
  "Mod_call m in0 in0_mapper in1 in1_mapper =
     ElementwiseBinary_call ModOpImpl (impl m) in0 in0_mapper in1 in1_mapper"

section \<open>Example graphs\<close>

text \<open>
  A host that excludes nothing, and small graphs: a convolution with data, weights and
  bias feeding a result, a pooling operator between a parameter and a result, and a
  one-dimensional convolution, whose output has rank 3.
\<close>

definition example_host :: host where
  "example_host =
     \<lparr>transformation_callback = (\<lambda>g n. False),
      validate_and_infer_types = (\<lambda>g opn ins. []),
      get_name = (\<lambda>n. ''node'')\<rparr>"

definition example_shape :: partial_shape where
  "example_shape = [Dimension 1 1, Dimension 16 16, Dimension 32 32, Dimension 64 64]"

definition example_node :: "operation \<Rightarrow> node_output list \<Rightarrow> partial_shape list \<Rightarrow> string \<Rightarrow> node" where
  "example_node opn ins shapes name =
     \<lparr>node_op = opn, inputs = ins, output_partial_shape = shapes, friendly_name = name,
      rt_info = []\<rparr>"

definition example_conv_graph :: graph where
  "example_conv_graph =
     [example_node (Host_op ''Parameter'' 1) [] [example_shape] ''data'',
      example_node (Host_op ''Constant'' 1) []
        [[Dimension 16 16, Dimension 16 16, Dimension 3 3, Dimension 3 3]] ''weights'',
      example_node (Host_op ''Constant'' 1) [] [[Dimension 16 16]] ''bias'',
      example_node (ArmConvolution [1, 1] [1, 1] [1, 1] [1, 1] EXPLICIT [])
        [(0, 0), (1, 0), (2, 0)] [example_shape] ''conv'',
      example_node (Host_op ''Result'' 1) [(3, 0)] [example_shape] ''result'']"

definition example_pool_graph :: "operation \<Rightarrow> graph" where
  "example_pool_graph pool =
     [example_node (Host_op ''Parameter'' 1) [] [example_shape] ''data'',
      example_node pool [(0, 0)] (replicate (get_output_size pool) example_shape) ''pool'',
      example_node (Host_op ''Result'' 1) [(1, 0)] [example_shape] ''result'']"

definition example_conv1d_graph :: graph where
  "example_conv1d_graph =
     [example_node (Host_op ''Parameter'' 1) [] [[Dimension 1 1, Dimension 3 3, Dimension 32 32]]
        ''data'',
      example_node (Host_op ''Constant'' 1) [] [[Dimension 16 16, Dimension 3 3, Dimension 3 3]]
        ''weights'',
      example_node (ArmConvolution [1] [0] [0] [1] EXPLICIT []) [(0, 0), (1, 0)]
        [[Dimension 1 1, Dimension 16 16, Dimension 30 30]] ''conv1d'']"

definition example_max_pool_v1 :: operation where
  "example_max_pool_v1 = ArmMaxPoolV1 [2, 2] [0, 0] [0, 0] [2, 2] FLOOR EXPLICIT []"

definition example_avg_pool :: operation where
  "example_avg_pool = ArmAvgPool [2, 2] [0, 0] [0, 0] [2, 2] True CEIL VALID []"

definition example_max_pool_v8 :: "int \<Rightarrow> operation" where
  "example_max_pool_v8 axis = ArmMaxPoolV8 [2, 2] [1, 1] [0, 0] [0, 0] [2, 2] FLOOR EXPLICIT i32 axis []"

section \<open>Properties of the layout passes\<close>

lemmas example_defs = example_host_def example_shape_def example_node_def example_conv_graph_def
  example_pool_graph_def example_max_pool_v8_def example_conv1d_graph_def
  example_max_pool_v1_def example_avg_pool_def

lemmas eval_defs = bind_exn_def input_value_def get_input_size_def get_output_partial_shape_def
  transpose_on_input_def transpose_on_output_def Constant_create_def make_shared_def Let_def
  set_friendly_name_def get_friendly_name_def replace_node_def replace_node_values_def
  replace_source_output_def transpose_output_shape_def perm_at_def shape_at_def
  nchw_to_nhwc_def nhwc_to_nchw_def ncdhw_to_ndhwc_def ndhwc_to_ncdhw_def

subsection \<open>The permuted output shape\<close>

lemma push_back_loop_map:
  "rank \<le> length perm \<Longrightarrow> \<forall>j<rank. 0 \<le> perm ! j \<and> nat (perm ! j) < length shape \<Longrightarrow>
   push_back_loop shape perm i rank acc =
     Inr (acc @ map (\<lambda>j. shape ! nat (perm ! j)) [i..<rank])"
proof (induction shape perm i rank acc rule: push_back_loop.induct)
  case (1 shape perm i rank acc)
  show ?case
  proof (cases "i < rank")
    case True
    have a: "perm_at perm i = Inr (perm ! i)"
      using True "1.prems" by (simp add: perm_at_def)
    have b: "shape_at shape (perm ! i) = Inr (shape ! nat (perm ! i))"
      using True "1.prems" by (simp add: shape_at_def)
    have "push_back_loop shape perm (Suc i) rank (acc @ [shape ! nat (perm ! i)]) =
          Inr ((acc @ [shape ! nat (perm ! i)]) @ map (\<lambda>j. shape ! nat (perm ! j)) [Suc i..<rank])"
      using "1.IH" [OF True] "1.prems" by simp
    then show ?thesis
      using True a b
      by (subst push_back_loop.simps) (simp add: bind_exn_def upt_conv_Cons)
  next
    case False
    then show ?thesis
      by (subst push_back_loop.simps) simp
  qed
qed

lemma push_back_loop_exn:
  "push_back_loop shape perm i rank acc = Inl e \<Longrightarrow> e = Out_of_range"
proof (induction shape perm i rank acc rule: push_back_loop.induct)
  case (1 shape perm i rank acc)
  from "1.prems" show ?case
    apply (subst (asm) push_back_loop.simps)
    apply (auto simp: bind_exn_def perm_at_def shape_at_def split: if_splits sum.splits dest: "1.IH")
    done
qed

lemma apply_transpose_nth:
  "i < length order \<Longrightarrow> apply_transpose order xs ! i = xs ! nat (order ! i)"
  by (simp add: apply_transpose_def)

lemma length_4_conv: "length xs = 4 \<Longrightarrow> \<exists>a b c d. xs = [a, b, c, d]"
  by (auto simp: eval_nat_numeral length_Suc_conv)

lemma length_5_conv: "length xs = 5 \<Longrightarrow> \<exists>a b c d e. xs = [a, b, c, d, e]"
  by (auto simp: eval_nat_numeral length_Suc_conv)

lemma transpose_output_shape_4:
  assumes "get_output_partial_shape nd 0 = Inr shape" "length shape = 4"
  shows "transpose_output_shape nd 4 = Inr (apply_transpose nchw_to_nhwc shape)"
proof -
  from assms(2) obtain a b c d where "shape = [a, b, c, d]"
    using length_4_conv by blast
  then show ?thesis
    using assms(1) push_back_loop_map [of 4 nchw_to_nhwc shape 0 "[]"]
    by (simp add: transpose_output_shape_def bind_exn_def nchw_to_nhwc_def nth_Cons'
        apply_transpose_def upt_conv_Cons)
qed

lemma transpose_output_shape_5:
  assumes "get_output_partial_shape nd 0 = Inr shape" "length shape = 5"
  shows "transpose_output_shape nd 5 = Inr (apply_transpose ncdhw_to_ndhwc shape)"
proof -
  from assms(2) obtain a b c d e where "shape = [a, b, c, d, e]"
    using length_5_conv by blast
  then show ?thesis
    using assms(1) push_back_loop_map [of 5 ncdhw_to_ndhwc shape 0 "[]"]
    by (simp add: transpose_output_shape_def bind_exn_def ncdhw_to_ndhwc_def nth_Cons'
        apply_transpose_def upt_conv_Cons)
qed

lemma transpose_output_shape_exn:
  "transpose_output_shape nd rank = Inl e \<Longrightarrow> e = Out_of_range"
  by (auto simp: transpose_output_shape_def bind_exn_def get_output_partial_shape_def Let_def
      split: sum.splits if_splits dest: push_back_loop_exn)

text \<open>
  C3: for a node whose output has rank 4 or 5, \<open>transpose_output_shape\<close> returns a shape
  whose \<open>i\<close>-th dimension is the node's output dimension at index \<open>perm[i]\<close>, with
  \<open>perm\<close> being \<open>nchw_to_nhwc\<close> for rank 4 and \<open>ncdhw_to_ndhwc\<close> for rank 5; the
  result is a permutation of the original output shape.
\<close>

theorem transpose_output_shape_permutes:
  assumes "get_output_partial_shape nd 0 = Inr shape" and "length shape = rank"
    and "rank = 4 \<or> rank = 5"
  shows "\<exists>s. transpose_output_shape nd rank = Inr s \<and> length s = rank \<and>
           (\<forall>i<rank. s ! i = shape ! nat ((if rank = 4 then nchw_to_nhwc else ncdhw_to_ndhwc) ! i)) \<and>
           mset s = mset shape"
proof -
  from assms(3) show ?thesis
  proof
    assume r: "rank = 4"
    with assms obtain a b c d where s: "shape = [a, b, c, d]"
      using length_4_conv by blast
    have "transpose_output_shape nd rank = Inr (apply_transpose nchw_to_nhwc shape)"
      using assms r transpose_output_shape_4 by simp
    moreover have "\<forall>i<4. apply_transpose nchw_to_nhwc shape ! i = shape ! nat (nchw_to_nhwc ! i)"
      by (simp add: apply_transpose_nth nchw_to_nhwc_def)
    moreover have "mset (apply_transpose nchw_to_nhwc shape) = mset shape"
      using s by (simp add: apply_transpose_def nchw_to_nhwc_def)
    moreover have "length (apply_transpose nchw_to_nhwc shape) = 4"
      by (simp add: apply_transpose_def nchw_to_nhwc_def)
    ultimately show ?thesis
      using r by simp
  next
    assume r: "rank = 5"
    with assms obtain a b c d e where s: "shape = [a, b, c, d, e]"
      using length_5_conv by blast
    have "transpose_output_shape nd rank = Inr (apply_transpose ncdhw_to_ndhwc shape)"
      using assms r transpose_output_shape_5 by simp
    moreover have "\<forall>i<5. apply_transpose ncdhw_to_ndhwc shape ! i = shape ! nat (ncdhw_to_ndhwc ! i)"
      by (simp add: apply_transpose_nth ncdhw_to_ndhwc_def)
    moreover have "mset (apply_transpose ncdhw_to_ndhwc shape) = mset shape"
      using s by (simp add: apply_transpose_def ncdhw_to_ndhwc_def)
    moreover have "length (apply_transpose ncdhw_to_ndhwc shape) = 5"
      by (simp add: apply_transpose_def ncdhw_to_ndhwc_def)
    ultimately show ?thesis
      using r by simp
  qed
qed

theorem transpose_output_shape_permutes_witness:
  "get_output_partial_shape (example_conv_graph ! 3) 0 = Inr example_shape \<and>
   length example_shape = 4 \<and> ((4::nat) = 4 \<or> (4::nat) = 5) \<and>
   (\<exists>s. transpose_output_shape (example_conv_graph ! 3) 4 = Inr s \<and> length s = 4 \<and>
        (\<forall>i<4. s ! i =
           example_shape ! nat ((if (4::nat) = 4 then nchw_to_nhwc else ncdhw_to_ndhwc) ! i)) \<and>
        mset s = mset example_shape)"
proof -
  have r: "(4::nat) = 4 \<or> (4::nat) = 5" by simp
  have sh: "get_output_partial_shape (example_conv_graph ! 3) 0 = Inr example_shape"
    by (simp add: get_output_partial_shape_def example_defs)
  have len: "length example_shape = 4"
    by (simp add: example_shape_def)
  show ?thesis
    using r sh len transpose_output_shape_permutes [OF sh len r]
    by blast
qed

subsection \<open>No exception for an unsupported rank, and the early returns\<close>

lemma bind_exn_Inl:
  "bind_exn m f = Inl e \<Longrightarrow> m = Inl e \<or> (\<exists>x. m = Inr x \<and> f x = Inl e)"
  by (cases m) (simp_all add: bind_exn_def)

lemma transpose_on_input_no_throw:
  "\<not> rank < 4 \<Longrightarrow> \<not> 5 < rank \<Longrightarrow> transpose_on_input h g x rank \<noteq> Inl e"
  by (auto simp: transpose_on_input_def Let_def split: if_splits prod.splits)

lemma transpose_on_output_no_throw:
  "\<not> rank < 4 \<Longrightarrow> \<not> 5 < rank \<Longrightarrow> transpose_on_output h g x rank \<noteq> Inl e"
  by (auto simp: transpose_on_output_def Let_def split: if_splits prod.splits)

lemma replace_node_values_exn:
  "replace_node_values g target vs \<noteq> Inl Unsupported_rank"
  by (auto simp: replace_node_values_def split: if_splits)

lemma replace_node_exn:
  "replace_node g target r \<noteq> Inl Unsupported_rank"
  by (simp add: replace_node_def replace_node_values_exn)

lemma input_value_exn: "input_value nd i \<noteq> Inl Unsupported_rank"
  by (auto simp: input_value_def split: if_splits)

lemma get_output_partial_shape_exn: "get_output_partial_shape nd i \<noteq> Inl Unsupported_rank"
  by (auto simp: get_output_partial_shape_def split: if_splits)

lemma transpose_output_shape_no_unsupported:
  "transpose_output_shape nd rank \<noteq> Inl Unsupported_rank"
  using transpose_output_shape_exn by fastforce

lemmas helper_exn = transpose_on_input_no_throw transpose_on_output_no_throw replace_node_values_exn
  replace_node_exn input_value_exn get_output_partial_shape_exn transpose_output_shape_no_unsupported

lemma conv_callback_exn:
  "ConvertArmConvolutionLayout_callback h g n \<noteq> Inl Unsupported_rank"
  unfolding ConvertArmConvolutionLayout_callback_def
  by (auto simp: Let_def helper_exn simp del: copy_runtime_info.simps
      split: if_splits operation.splits prod.splits dest!: bind_exn_Inl)

lemma v1_callback_exn:
  "ConvertArmMaxPoolV1Layout_callback h g n \<noteq> Inl Unsupported_rank"
  unfolding ConvertArmMaxPoolV1Layout_callback_def
  by (auto simp: Let_def helper_exn simp del: copy_runtime_info.simps
      split: if_splits operation.splits prod.splits dest!: bind_exn_Inl)

lemma v8_callback_exn:
  "ConvertArmMaxPoolV8Layout_callback h g n \<noteq> Inl Unsupported_rank"
  unfolding ConvertArmMaxPoolV8Layout_callback_def
  by (auto simp: Let_def helper_exn simp del: copy_runtime_info.simps
      split: if_splits operation.splits prod.splits dest!: bind_exn_Inl)

lemma avg_callback_exn:
  "ConvertArmAvgPoolLayout_callback h g n \<noteq> Inl Unsupported_rank"
  unfolding ConvertArmAvgPoolLayout_callback_def
  by (auto simp: Let_def helper_exn simp del: copy_runtime_info.simps
      split: if_splits operation.splits prod.splits dest!: bind_exn_Inl)

lemma conv_callback_false:
  assumes "transformation_callback h g n \<or> \<not> is_ArmConvolution (node_op (g ! n)) \<or>
     (\<exists>shape. get_output_partial_shape (g ! n) 0 = Inr shape \<and> (length shape < 4 \<or> 5 < length shape))"
  shows "ConvertArmConvolutionLayout_callback h g n = Inr (False, g)"
  using assms unfolding ConvertArmConvolutionLayout_callback_def
  by (cases "node_op (g ! n)") (auto simp: bind_exn_def Let_def)

lemma v1_callback_false:
  assumes "transformation_callback h g n \<or> \<not> is_ArmMaxPoolV1 (node_op (g ! n)) \<or>
     (\<exists>shape. get_output_partial_shape (g ! n) 0 = Inr shape \<and> (length shape < 4 \<or> 5 < length shape))"
  shows "ConvertArmMaxPoolV1Layout_callback h g n = Inr (False, g)"
  using assms unfolding ConvertArmMaxPoolV1Layout_callback_def
  by (cases "node_op (g ! n)") (auto simp: bind_exn_def Let_def)

lemma v8_callback_false:
  assumes "transformation_callback h g n \<or> \<not> is_ArmMaxPoolV8 (node_op (g ! n)) \<or>
     (\<exists>shape. get_output_partial_shape (g ! n) 0 = Inr shape \<and> (length shape < 4 \<or> 5 < length shape))"
  shows "ConvertArmMaxPoolV8Layout_callback h g n = Inr (False, g)"
  using assms unfolding ConvertArmMaxPoolV8Layout_callback_def
  by (cases "node_op (g ! n)") (auto simp: bind_exn_def Let_def)

lemma avg_callback_false:
  assumes "transformation_callback h g n \<or> \<not> is_ArmAvgPool (node_op (g ! n)) \<or>
     (\<exists>shape. get_output_partial_shape (g ! n) 0 = Inr shape \<and> (length shape < 4 \<or> 5 < length shape))"
  shows "ConvertArmAvgPoolLayout_callback h g n = Inr (False, g)"
  using assms unfolding ConvertArmAvgPoolLayout_callback_def
  by (cases "node_op (g ! n)") (auto simp: bind_exn_def Let_def)

lemma transpose_on_input_throws:
  "rank < 4 \<or> 5 < rank \<Longrightarrow> transpose_on_input h g x rank = Inl Unsupported_rank"
  by (auto simp: transpose_on_input_def)

lemma transpose_on_output_throws:
  "rank < 4 \<or> 5 < rank \<Longrightarrow> transpose_on_output h g x rank = Inl Unsupported_rank"
  by (auto simp: transpose_on_output_def)

text \<open>
  C5: every callback of \<open>ConvertLayout\<close> returns false and leaves the graph as it was
  when the node is excluded by \<open>transformation_callback\<close>, when it is not of the
  expected operator type, or when its output rank is below 4 or above 5; and no callback
  ever fails with the unsupported-rank exception that the transpose helpers raise for
  such ranks.
\<close>

theorem callbacks_fail_atomically:
  assumes "(root, callback) \<in> set ConvertLayout"
  shows "(transformation_callback h g n \<or> \<not> root (node_op (g ! n)) \<or>
          (\<exists>shape. get_output_partial_shape (g ! n) 0 = Inr shape \<and>
             (length shape < 4 \<or> 5 < length shape))
          \<longrightarrow> callback h g n = Inr (False, g)) \<and>
         callback h g n \<noteq> Inl Unsupported_rank \<and>
         (rank < 4 \<or> 5 < rank \<longrightarrow>
            transpose_on_input h g x rank = Inl Unsupported_rank \<and>
            transpose_on_output h g x rank = Inl Unsupported_rank)"
proof -
  from assms consider
      "root = is_ArmConvolution" "callback = ConvertArmConvolutionLayout_callback"
    | "root = is_ArmMaxPoolV1" "callback = ConvertArmMaxPoolV1Layout_callback"
    | "root = is_ArmMaxPoolV8" "callback = ConvertArmMaxPoolV8Layout_callback"
    | "root = is_ArmAvgPool" "callback = ConvertArmAvgPoolLayout_callback"
    by (auto simp: ConvertLayout_def)
  then show ?thesis
  proof cases
    case 1
    then show ?thesis
      using conv_callback_false [of h g n] conv_callback_exn [of h g n]
        transpose_on_input_throws [of rank h g x] transpose_on_output_throws [of rank h g x]
      by blast
  next
    case 2
    then show ?thesis
      using v1_callback_false [of h g n] v1_callback_exn [of h g n]
        transpose_on_input_throws [of rank h g x] transpose_on_output_throws [of rank h g x]
      by blast
  next
    case 3
    then show ?thesis
      using v8_callback_false [of h g n] v8_callback_exn [of h g n]
        transpose_on_input_throws [of rank h g x] transpose_on_output_throws [of rank h g x]
      by blast
  next
    case 4
    then show ?thesis
      using avg_callback_false [of h g n] avg_callback_exn [of h g n]
        transpose_on_input_throws [of rank h g x] transpose_on_output_throws [of rank h g x]
      by blast
  qed
qed

theorem callbacks_fail_atomically_witness:
  "(is_ArmConvolution, ConvertArmConvolutionLayout_callback) \<in> set ConvertLayout \<and>
   get_output_partial_shape (example_conv1d_graph ! 2) 0 =
     Inr [Dimension 1 1, Dimension 16 16, Dimension 30 30] \<and>
   ConvertArmConvolutionLayout_callback example_host example_conv1d_graph 2 =
     Inr (False, example_conv1d_graph) \<and>
   ConvertArmConvolutionLayout_callback example_host example_conv1d_graph 2 \<noteq>
     Inl Unsupported_rank \<and>
   transpose_on_input example_host example_conv1d_graph (0, 0) 3 = Inl Unsupported_rank \<and>
   transpose_on_output example_host example_conv1d_graph (0, 0) 3 = Inl Unsupported_rank"
proof -
  have m: "(is_ArmConvolution, ConvertArmConvolutionLayout_callback) \<in> set ConvertLayout"
    by (simp add: ConvertLayout_def)
  have sh: "get_output_partial_shape (example_conv1d_graph ! 2) 0 =
      Inr [Dimension 1 1, Dimension 16 16, Dimension 30 30]"
    by (simp add: get_output_partial_shape_def example_defs)
  have len: "length [Dimension 1 1, Dimension 16 16, Dimension 30 30] < 4" "(3::nat) < 4"
    by simp_all
  show ?thesis
    using m sh len
      callbacks_fail_atomically [OF m, of example_host example_conv1d_graph 2 3 "(0, 0)"]
    by blast
qed

lemma v8_guard_false:
  assumes "node_op (g ! n) = ArmMaxPoolV8 s d pb pe k r ap iet axis os"
    and "get_output_partial_shape (g ! n) 0 = Inr shape"
    and "1 < axis \<or> (- int (length shape) \<le> axis \<and> axis < 0)"
  shows "ConvertArmMaxPoolV8Layout_callback h g n = Inr (False, g)"
  using assms unfolding ConvertArmMaxPoolV8Layout_callback_def
  by (auto simp: bind_exn_def Let_def)

subsection \<open>The rewritten subgraph\<close>

lemma make_shared_expl:
  "\<exists>nd. make_shared h g opn ins = (length g, g @ [nd]) \<and> node_op nd = opn \<and> inputs nd = ins \<and>
     friendly_name nd = [] \<and> rt_info nd = []"
  by (simp add: make_shared_def)

lemma transpose_on_input_expl:
  assumes "rank = 4 \<or> rank = 5"
  shows "\<exists>cn tn. transpose_on_input h g x rank = Inr (Suc (length g), g @ [cn, tn]) \<and>
     node_op cn = Constant i32 [length (to_channel_last rank)] (to_channel_last rank) \<and>
     inputs cn = [] \<and> node_op tn = Transpose \<and> inputs tn = [x, (length g, 0)]"
  using assms
  by (auto simp: transpose_on_input_def Constant_create_def make_shared_def to_channel_last_def)

lemma transpose_on_output_expl:
  assumes "rank = 4 \<or> rank = 5"
  shows "\<exists>cn tn. transpose_on_output h g x rank = Inr (Suc (length g), g @ [cn, tn]) \<and>
     node_op cn = Constant i32 [length (to_channel_first rank)] (to_channel_first rank) \<and>
     inputs cn = [] \<and> node_op tn = Transpose \<and> inputs tn = [x, (length g, 0)]"
  using assms
  by (auto simp: transpose_on_output_def Constant_create_def make_shared_def to_channel_first_def)

lemma transpose_output_shape_expl:
  assumes "get_output_partial_shape nd 0 = Inr shape" "length shape = rank" "rank = 4 \<or> rank = 5"
  shows "transpose_output_shape nd rank = Inr (apply_transpose (to_channel_last rank) shape)"
  using assms transpose_output_shape_4 [of nd shape] transpose_output_shape_5 [of nd shape]
  by (auto simp: to_channel_last_def)

lemma nth_append_Suc_length [simp]:
  "(g @ x # xs) ! Suc (length g) = xs ! 0"
  "(g @ x # xs) ! Suc (Suc (length g)) = xs ! 1"
  "(g @ x # xs) ! Suc (Suc (Suc (length g))) = xs ! 2"
  "(g @ x # xs) ! Suc (Suc (Suc (Suc (length g)))) = xs ! 3"
  "(g @ x # xs) ! Suc (Suc (Suc (Suc (Suc (length g))))) = xs ! 4"
  "(g @ x # xs) ! Suc (Suc (Suc (Suc (Suc (Suc (length g)))))) = xs ! 5"
  "(g @ x # xs) ! Suc (Suc (Suc (Suc (Suc (Suc (Suc (length g))))))) = xs ! 6"
  by (simp_all add: nth_append)

lemma list_update_append_Suc_length [simp]:
  "(g @ x # xs)[length g := v] = g @ v # xs"
  "(g @ x # xs)[Suc (length g) := v] = g @ x # xs[0 := v]"
  "(g @ x # xs)[Suc (Suc (length g)) := v] = g @ x # xs[1 := v]"
  "(g @ x # xs)[Suc (Suc (Suc (length g))) := v] = g @ x # xs[2 := v]"
  "(g @ x # xs)[Suc (Suc (Suc (Suc (length g)))) := v] = g @ x # xs[3 := v]"
  "(g @ x # xs)[Suc (Suc (Suc (Suc (Suc (length g))))) := v] = g @ x # xs[4 := v]"
  "(g @ x # xs)[Suc (Suc (Suc (Suc (Suc (Suc (length g)))))) := v] = g @ x # xs[5 := v]"
  "(g @ x # xs)[Suc (Suc (Suc (Suc (Suc (Suc (Suc (length g))))))) := v] = g @ x # xs[6 := v]"
  by (simp_all add: list_update_append)

lemma get_friendly_name_append [simp]:
  "n < length g \<Longrightarrow> get_friendly_name h (g @ xs) n = get_friendly_name h g n"
  by (simp add: get_friendly_name_def nth_append)

lemmas callback_simps = bind_exn_def input_value_def get_input_size_def nth_append Let_def
  set_friendly_name_def replace_node_def replace_node_values_def
  is_transpose_def rewired_def replace_source_output_def

lemma conv_rewrite:
  assumes n: "n < length g" and tc: "\<not> transformation_callback h g n"
    and op: "node_op (g ! n) = ArmConvolution s pb pe d ap os"
    and sh: "get_output_partial_shape (g ! n) 0 = Inr shape" "length shape = rank"
    and r: "rank = 4 \<or> rank = 5"
    and ins: "inputs (g ! n) = in0 # in1 # ins"
    and loop: "fst in0 \<noteq> n" "fst in1 \<noteq> n" "\<forall>src \<in> set ins. fst src \<noteq> n"
  shows "\<exists>g'. ConvertArmConvolutionLayout_callback h g n = Inr (True, g') \<and>
      length g' = length g + 7 \<and>
      is_transpose g' (length g + 1) in0 (to_channel_last rank) \<and>
      is_transpose g' (length g + 3) in1 (to_channel_last rank) \<and>
      node_op (g' ! (length g + 4)) =
        ArmConvolution s pb pe d ap (apply_transpose (to_channel_last rank) shape) \<and>
      inputs (g' ! (length g + 4)) = (length g + 1, 0) # (length g + 3, 0) # take 1 ins \<and>
      is_transpose g' (length g + 6) (length g + 4, 0) (to_channel_first rank) \<and>
      friendly_name (g' ! (length g + 6)) = get_friendly_name h g n \<and>
      rewired g g' n [(length g + 6, 0)] \<and>
      map node_op (drop (length g) g') =
        [Constant i32 [length (to_channel_last rank)] (to_channel_last rank), Transpose,
         Constant i32 [length (to_channel_last rank)] (to_channel_last rank), Transpose,
         ArmConvolution s pb pe d ap (apply_transpose (to_channel_last rank) shape),
         Constant i32 [length (to_channel_first rank)] (to_channel_first rank), Transpose]"
proof -
  let ?L = "length g"
  obtain c1 t1 where 1: "transpose_on_input h g in0 rank = Inr (Suc ?L, g @ [c1, t1])"
    "node_op c1 = Constant i32 [length (to_channel_last rank)] (to_channel_last rank)"
    "inputs c1 = []" "node_op t1 = Transpose" "inputs t1 = [in0, (?L, 0)]"
    using transpose_on_input_expl [OF r] by blast
  obtain c2 t2 where 2: "transpose_on_input h (g @ [c1, t1]) in1 rank =
      Inr (Suc (Suc (Suc ?L)), g @ [c1, t1, c2, t2])"
    "node_op c2 = Constant i32 [length (to_channel_last rank)] (to_channel_last rank)"
    "inputs c2 = []" "node_op t2 = Transpose" "inputs t2 = [in1, (Suc (Suc ?L), 0)]"
    using transpose_on_input_expl [OF r, of h "g @ [c1, t1]" in1] by auto
  let ?g2 = "g @ [c1, t1, c2, t2]"
  let ?os = "apply_transpose (to_channel_last rank) shape"
  have tos: "transpose_output_shape (g ! n) rank = Inr ?os"
    using sh r by (rule transpose_output_shape_expl)
  have rk: "\<not> rank < 4" "\<not> 5 < rank" using r by auto
  show ?thesis
  proof (cases ins)
    case Nil
    let ?ins = "[(Suc ?L, 0), (Suc (Suc (Suc ?L)), 0)]"
    obtain nc where 3: "make_shared h ?g2 (ArmConvolution s pb pe d ap ?os) ?ins
        = (Suc (Suc (Suc (Suc ?L))), g @ [c1, t1, c2, t2, nc])"
      "node_op nc = ArmConvolution s pb pe d ap ?os"
      "inputs nc = ?ins"
      using make_shared_expl [of h ?g2 "ArmConvolution s pb pe d ap ?os" ?ins] by auto
    obtain c3 t3 where 4: "transpose_on_output h (g @ [c1, t1, c2, t2, nc]) (Suc (Suc (Suc (Suc ?L))), 0) rank =
      Inr (Suc (Suc (Suc (Suc (Suc (Suc ?L))))), g @ [c1, t1, c2, t2, nc, c3, t3])"
      "node_op c3 = Constant i32 [length (to_channel_first rank)] (to_channel_first rank)"
      "inputs c3 = []" "node_op t3 = Transpose"
      "inputs t3 = [(Suc (Suc (Suc (Suc ?L))), 0), (Suc (Suc (Suc (Suc (Suc ?L)))), 0)]"
      using transpose_on_output_expl [OF r, of h "g @ [c1, t1, c2, t2, nc]" "(Suc (Suc (Suc (Suc ?L))), 0)"] by auto
    show ?thesis
      using n Nil loop
      by (simp add: ConvertArmConvolutionLayout_callback_def tc op sh ins rk tos 1 2 3 4
          callback_simps)
  next
    case (Cons in2 rest)
    let ?ins = "[(Suc ?L, 0), (Suc (Suc (Suc ?L)), 0), in2]"
    obtain nc where 3: "make_shared h ?g2 (ArmConvolution s pb pe d ap ?os) ?ins
        = (Suc (Suc (Suc (Suc ?L))), g @ [c1, t1, c2, t2, nc])"
      "node_op nc = ArmConvolution s pb pe d ap ?os"
      "inputs nc = ?ins"
      using make_shared_expl [of h ?g2 "ArmConvolution s pb pe d ap ?os" ?ins] by auto
    obtain c3 t3 where 4: "transpose_on_output h (g @ [c1, t1, c2, t2, nc]) (Suc (Suc (Suc (Suc ?L))), 0) rank =
      Inr (Suc (Suc (Suc (Suc (Suc (Suc ?L))))), g @ [c1, t1, c2, t2, nc, c3, t3])"
      "node_op c3 = Constant i32 [length (to_channel_first rank)] (to_channel_first rank)"
      "inputs c3 = []" "node_op t3 = Transpose"
      "inputs t3 = [(Suc (Suc (Suc (Suc ?L))), 0), (Suc (Suc (Suc (Suc (Suc ?L)))), 0)]"
      using transpose_on_output_expl [OF r, of h "g @ [c1, t1, c2, t2, nc]" "(Suc (Suc (Suc (Suc ?L))), 0)"] by auto
    show ?thesis
      using n Cons loop
      by (simp add: ConvertArmConvolutionLayout_callback_def tc op sh ins rk tos 1 2 3 4
          callback_simps)
  qed
qed

lemma v1_rewrite:
  assumes n: "n < length g" and tc: "\<not> transformation_callback h g n"
    and op: "node_op (g ! n) = ArmMaxPoolV1 s pb pe k rt ap os"
    and sh: "get_output_partial_shape (g ! n) 0 = Inr shape" "length shape = rank"
    and r: "rank = 4 \<or> rank = 5"
    and ins: "inputs (g ! n) = in0 # ins"
    and loop: "fst in0 \<noteq> n"
  shows "\<exists>g'. ConvertArmMaxPoolV1Layout_callback h g n = Inr (True, g') \<and>
      length g' = length g + 5 \<and>
      is_transpose g' (length g + 1) in0 (to_channel_last rank) \<and>
      node_op (g' ! (length g + 2)) = ArmMaxPoolV1 s pb pe k rt ap (apply_transpose (to_channel_last rank) shape) \<and>
      inputs (g' ! (length g + 2)) = [(length g + 1, 0)] \<and>
      is_transpose g' (length g + 4) (length g + 2, 0) (to_channel_first rank) \<and>
      friendly_name (g' ! (length g + 4)) = get_friendly_name h g n \<and>
      rewired g g' n [(length g + 4, 0)] \<and>
      map node_op (drop (length g) g') =
        [Constant i32 [length (to_channel_last rank)] (to_channel_last rank), Transpose,
         ArmMaxPoolV1 s pb pe k rt ap (apply_transpose (to_channel_last rank) shape),
         Constant i32 [length (to_channel_first rank)] (to_channel_first rank), Transpose]"
proof -
  let ?L = "length g"
  let ?os = "apply_transpose (to_channel_last rank) shape"
  obtain c1 t1 where 1: "transpose_on_input h g in0 rank = Inr (Suc ?L, g @ [c1, t1])"
    "node_op c1 = Constant i32 [length (to_channel_last rank)] (to_channel_last rank)"
    "inputs c1 = []" "node_op t1 = Transpose" "inputs t1 = [in0, (?L, 0)]"
    using transpose_on_input_expl [OF r] by blast
  obtain np where 2: "make_shared h (g @ [c1, t1]) (ArmMaxPoolV1 s pb pe k rt ap (apply_transpose (to_channel_last rank) shape)) [(Suc ?L, 0)]
        = (Suc (Suc ?L), g @ [c1, t1, np])"
    "node_op np = ArmMaxPoolV1 s pb pe k rt ap (apply_transpose (to_channel_last rank) shape)" "inputs np = [(Suc ?L, 0)]"
    using make_shared_expl [of h "g @ [c1, t1]" "ArmMaxPoolV1 s pb pe k rt ap (apply_transpose (to_channel_last rank) shape)" "[(Suc ?L, 0)]"] by auto
  obtain c3 t3 where 3: "transpose_on_output h (g @ [c1, t1, np]) (Suc (Suc ?L), 0) rank =
      Inr (Suc (Suc (Suc (Suc ?L))), g @ [c1, t1, np, c3, t3])"
    "node_op c3 = Constant i32 [length (to_channel_first rank)] (to_channel_first rank)"
    "inputs c3 = []" "node_op t3 = Transpose"
    "inputs t3 = [(Suc (Suc ?L), 0), (Suc (Suc (Suc ?L)), 0)]"
    using transpose_on_output_expl [OF r, of h "g @ [c1, t1, np]" "(Suc (Suc ?L), 0)"] by auto
  have tos: "transpose_output_shape (g ! n) rank = Inr ?os"
    using sh r by (rule transpose_output_shape_expl)
  have rk: "\<not> rank < 4" "\<not> 5 < rank" using r by auto
  show ?thesis
    using n loop
    by (simp add: ConvertArmMaxPoolV1Layout_callback_def tc op sh ins rk tos 1 2 3 callback_simps)
qed

lemma avg_rewrite:
  assumes n: "n < length g" and tc: "\<not> transformation_callback h g n"
    and op: "node_op (g ! n) = ArmAvgPool s pb pe k ep rt ap os"
    and sh: "get_output_partial_shape (g ! n) 0 = Inr shape" "length shape = rank"
    and r: "rank = 4 \<or> rank = 5"
    and ins: "inputs (g ! n) = in0 # ins"
    and loop: "fst in0 \<noteq> n"
  shows "\<exists>g'. ConvertArmAvgPoolLayout_callback h g n = Inr (True, g') \<and>
      length g' = length g + 5 \<and>
      is_transpose g' (length g + 1) in0 (to_channel_last rank) \<and>
      node_op (g' ! (length g + 2)) = ArmAvgPool s pb pe k ep rt ap (apply_transpose (to_channel_last rank) shape) \<and>
      inputs (g' ! (length g + 2)) = [(length g + 1, 0)] \<and>
      is_transpose g' (length g + 4) (length g + 2, 0) (to_channel_first rank) \<and>
      friendly_name (g' ! (length g + 4)) = get_friendly_name h g n \<and>
      rewired g g' n [(length g + 4, 0)] \<and>
      map node_op (drop (length g) g') =
        [Constant i32 [length (to_channel_last rank)] (to_channel_last rank), Transpose,
         ArmAvgPool s pb pe k ep rt ap (apply_transpose (to_channel_last rank) shape),
         Constant i32 [length (to_channel_first rank)] (to_channel_first rank), Transpose]"
proof -
  let ?L = "length g"
  let ?os = "apply_transpose (to_channel_last rank) shape"
  obtain c1 t1 where 1: "transpose_on_input h g in0 rank = Inr (Suc ?L, g @ [c1, t1])"
    "node_op c1 = Constant i32 [length (to_channel_last rank)] (to_channel_last rank)"
    "inputs c1 = []" "node_op t1 = Transpose" "inputs t1 = [in0, (?L, 0)]"
    using transpose_on_input_expl [OF r] by blast
  obtain np where 2: "make_shared h (g @ [c1, t1]) (ArmAvgPool s pb pe k ep rt ap (apply_transpose (to_channel_last rank) shape)) [(Suc ?L, 0)]
        = (Suc (Suc ?L), g @ [c1, t1, np])"
    "node_op np = ArmAvgPool s pb pe k ep rt ap (apply_transpose (to_channel_last rank) shape)" "inputs np = [(Suc ?L, 0)]"
    using make_shared_expl [of h "g @ [c1, t1]" "ArmAvgPool s pb pe k ep rt ap (apply_transpose (to_channel_last rank) shape)" "[(Suc ?L, 0)]"] by auto
  obtain c3 t3 where 3: "transpose_on_output h (g @ [c1, t1, np]) (Suc (Suc ?L), 0) rank =
      Inr (Suc (Suc (Suc (Suc ?L))), g @ [c1, t1, np, c3, t3])"
    "node_op c3 = Constant i32 [length (to_channel_first rank)] (to_channel_first rank)"
    "inputs c3 = []" "node_op t3 = Transpose"
    "inputs t3 = [(Suc (Suc ?L), 0), (Suc (Suc (Suc ?L)), 0)]"
    using transpose_on_output_expl [OF r, of h "g @ [c1, t1, np]" "(Suc (Suc ?L), 0)"] by auto
  have tos: "transpose_output_shape (g ! n) rank = Inr ?os"
    using sh r by (rule transpose_output_shape_expl)
  have rk: "\<not> rank < 4" "\<not> 5 < rank" using r by auto
  show ?thesis
    using n loop
    by (simp add: ConvertArmAvgPoolLayout_callback_def tc op sh ins rk tos 1 2 3 callback_simps)
qed

lemma v8_rewrite:
  assumes n: "n < length g" and tc: "\<not> transformation_callback h g n"
    and op: "node_op (g ! n) = ArmMaxPoolV8 s d pb pe k rt ap iet axis os"
    and sh: "get_output_partial_shape (g ! n) 0 = Inr shape" "length shape = rank"
    and r: "rank = 4 \<or> rank = 5"
    and ax: "axis \<le> 1" "0 \<le> axis \<or> axis < - int rank"
    and ins: "inputs (g ! n) = in0 # ins"
    and loop: "fst in0 \<noteq> n"
  shows "\<exists>g'. ConvertArmMaxPoolV8Layout_callback h g n = Inr (True, g') \<and>
      length g' = length g + 7 \<and>
      is_transpose g' (length g + 1) in0 (to_channel_last rank) \<and>
      node_op (g' ! (length g + 2)) =
        ArmMaxPoolV8 s d pb pe k rt ap iet axis (apply_transpose (to_channel_last rank) shape) \<and>
      inputs (g' ! (length g + 2)) = [(length g + 1, 0)] \<and>
      is_transpose g' (length g + 4) (length g + 2, 0) (to_channel_first rank) \<and>
      friendly_name (g' ! (length g + 4)) = get_friendly_name h g n @ ''.0'' \<and>
      is_transpose g' (length g + 6) (length g + 2, 1) (to_channel_first rank) \<and>
      friendly_name (g' ! (length g + 6)) = get_friendly_name h g n @ ''.1'' \<and>
      rewired g g' n [(length g + 4, 0), (length g + 6, 0)] \<and>
      map node_op (drop (length g) g') =
        [Constant i32 [length (to_channel_last rank)] (to_channel_last rank), Transpose,
         ArmMaxPoolV8 s d pb pe k rt ap iet axis (apply_transpose (to_channel_last rank) shape),
         Constant i32 [length (to_channel_first rank)] (to_channel_first rank), Transpose,
         Constant i32 [length (to_channel_first rank)] (to_channel_first rank), Transpose]"
proof -
  let ?L = "length g"
  let ?os = "apply_transpose (to_channel_last rank) shape"
  let ?new = "ArmMaxPoolV8 s d pb pe k rt ap iet axis ?os"
  obtain c1 t1 where 1: "transpose_on_input h g in0 rank = Inr (Suc ?L, g @ [c1, t1])"
    "node_op c1 = Constant i32 [length (to_channel_last rank)] (to_channel_last rank)"
    "inputs c1 = []" "node_op t1 = Transpose" "inputs t1 = [in0, (?L, 0)]"
    using transpose_on_input_expl [OF r] by blast
  obtain np where 2: "make_shared h (g @ [c1, t1]) ?new [(Suc ?L, 0)]
        = (Suc (Suc ?L), g @ [c1, t1, np])"
    "node_op np = ?new" "inputs np = [(Suc ?L, 0)]"
    using make_shared_expl [of h "g @ [c1, t1]" ?new "[(Suc ?L, 0)]"] by auto
  obtain c3 t3 where 3: "transpose_on_output h (g @ [c1, t1, np]) (Suc (Suc ?L), 0) rank =
      Inr (Suc (Suc (Suc (Suc ?L))), g @ [c1, t1, np, c3, t3])"
    "node_op c3 = Constant i32 [length (to_channel_first rank)] (to_channel_first rank)"
    "inputs c3 = []" "node_op t3 = Transpose"
    "inputs t3 = [(Suc (Suc ?L), 0), (Suc (Suc (Suc ?L)), 0)]"
    using transpose_on_output_expl [OF r, of h "g @ [c1, t1, np]" "(Suc (Suc ?L), 0)"] by auto
  let ?t3 = "t3\<lparr>friendly_name := get_friendly_name h g n @ ''.0''\<rparr>"
  obtain c4 t4 where 4: "transpose_on_output h (g @ [c1, t1, np, c3, ?t3]) (Suc (Suc ?L), Suc 0) rank =
      Inr (Suc (Suc (Suc (Suc (Suc (Suc ?L))))), g @ [c1, t1, np, c3, ?t3, c4, t4])"
    "node_op c4 = Constant i32 [length (to_channel_first rank)] (to_channel_first rank)"
    "inputs c4 = []" "node_op t4 = Transpose"
    "inputs t4 = [(Suc (Suc ?L), Suc 0), (Suc (Suc (Suc (Suc (Suc ?L)))), 0)]"
    using transpose_on_output_expl [OF r, of h "g @ [c1, t1, np, c3, ?t3]" "(Suc (Suc ?L), Suc 0)"] by auto
  have tos: "transpose_output_shape (g ! n) rank = Inr ?os"
    using sh r by (rule transpose_output_shape_expl)
  have rk: "\<not> rank < 4" "\<not> 5 < rank" using r by auto
  have guard: "\<not> (1 < axis \<or> axis < 0 \<and> - int rank - 1 < axis)"
    using ax by auto
  have idx: "length g + 4 = Suc (Suc (Suc (Suc ?L)))"
    "length g + 6 = Suc (Suc (Suc (Suc (Suc (Suc ?L)))))"
    by simp_all
  show ?thesis
    using n loop guard
    by (simp add: ConvertArmMaxPoolV8Layout_callback_def tc op sh ins rk tos 1 2 3 4 callback_simps
        idx)
qed







lemma two_inputs:
  assumes "2 \<le> length (xs :: 'a list)"
  obtains in0 in1 ins where "xs = in0 # in1 # ins"
  using assms by (cases xs; cases "tl xs") auto

lemma one_input:
  assumes "1 \<le> length (xs :: 'a list)"
  obtains in0 ins where "xs = in0 # ins"
  using assms by (cases xs) auto

text \<open>
  C2 (amended): for a matched convolution or pooling node whose output rank is 4 or 5,
  which is not excluded by \<open>transformation_callback\<close> and, for MaxPool-8, whose axis
  passes the axis guard (at most 1, and not a negative value from \<open>-rank\<close> on), the
  pass builds a Transpose to channel-last on the activations (and on the weights of a
  convolution), an operator of the same kind on the transposed inputs with the permuted
  output shape, and a Transpose back to channel-first on each output (two for MaxPool-8,
  named with the suffixes \<open>.0\<close> and \<open>.1\<close>); the final transposes carry the friendly
  name of the original node and take over its consumers.
\<close>

theorem layout_passes_replace_matched_node:
  assumes "n < length g" and "\<not> transformation_callback h g n"
    and "get_output_partial_shape (g ! n) 0 = Inr shape" and "length shape = rank"
    and "rank = 4 \<or> rank = 5"
    and "\<forall>src \<in> set (inputs (g ! n)). fst src \<noteq> n"
  shows
    "(node_op (g ! n) = ArmConvolution s cpb cpe d ap os \<and> 2 \<le> length (inputs (g ! n)) \<longrightarrow>
       (\<exists>g'. ConvertArmConvolutionLayout_callback h g n = Inr (True, g') \<and>
          length g' = length g + 7 \<and>
          map node_op (drop (length g) g') =
            [Constant i32 [length (to_channel_last rank)] (to_channel_last rank), Transpose, Constant i32 [length (to_channel_last rank)] (to_channel_last rank), Transpose,
             ArmConvolution s cpb cpe d ap (apply_transpose (to_channel_last rank) shape),
             Constant i32 [length (to_channel_first rank)] (to_channel_first rank), Transpose] \<and>
          is_transpose g' (length g + 1) (inputs (g ! n) ! 0) (to_channel_last rank) \<and>
          is_transpose g' (length g + 3) (inputs (g ! n) ! 1) (to_channel_last rank) \<and>
          inputs (g' ! (length g + 4)) =
            (length g + 1, 0) # (length g + 3, 0) # take 1 (drop 2 (inputs (g ! n))) \<and>
          is_transpose g' (length g + 6) (length g + 4, 0) (to_channel_first rank) \<and>
          friendly_name (g' ! (length g + 6)) = get_friendly_name h g n \<and>
          rewired g g' n [(length g + 6, 0)])) \<and>
     (node_op (g ! n) = ArmMaxPoolV1 s pb pe k rt ap os \<and> 1 \<le> length (inputs (g ! n)) \<longrightarrow>
       (\<exists>g'. ConvertArmMaxPoolV1Layout_callback h g n = Inr (True, g') \<and>
          length g' = length g + 5 \<and>
          map node_op (drop (length g) g') =
            [Constant i32 [length (to_channel_last rank)] (to_channel_last rank), Transpose,
             ArmMaxPoolV1 s pb pe k rt ap (apply_transpose (to_channel_last rank) shape),
             Constant i32 [length (to_channel_first rank)] (to_channel_first rank), Transpose] \<and>
          is_transpose g' (length g + 1) (inputs (g ! n) ! 0) (to_channel_last rank) \<and>
          inputs (g' ! (length g + 2)) = [(length g + 1, 0)] \<and>
          is_transpose g' (length g + 4) (length g + 2, 0) (to_channel_first rank) \<and>
          friendly_name (g' ! (length g + 4)) = get_friendly_name h g n \<and>
          rewired g g' n [(length g + 4, 0)])) \<and>
     (node_op (g ! n) = ArmMaxPoolV8 s d pb pe k rt ap iet axis os \<and>
      1 \<le> length (inputs (g ! n)) \<and> axis \<le> 1 \<and> (0 \<le> axis \<or> axis < - int rank) \<longrightarrow>
       (\<exists>g'. ConvertArmMaxPoolV8Layout_callback h g n = Inr (True, g') \<and>
          length g' = length g + 7 \<and>
          map node_op (drop (length g) g') =
            [Constant i32 [length (to_channel_last rank)] (to_channel_last rank), Transpose,
             ArmMaxPoolV8 s d pb pe k rt ap iet axis (apply_transpose (to_channel_last rank) shape),
             Constant i32 [length (to_channel_first rank)] (to_channel_first rank), Transpose, Constant i32 [length (to_channel_first rank)] (to_channel_first rank), Transpose] \<and>
          is_transpose g' (length g + 1) (inputs (g ! n) ! 0) (to_channel_last rank) \<and>
          inputs (g' ! (length g + 2)) = [(length g + 1, 0)] \<and>
          is_transpose g' (length g + 4) (length g + 2, 0) (to_channel_first rank) \<and>
          friendly_name (g' ! (length g + 4)) = get_friendly_name h g n @ ''.0'' \<and>
          is_transpose g' (length g + 6) (length g + 2, 1) (to_channel_first rank) \<and>
          friendly_name (g' ! (length g + 6)) = get_friendly_name h g n @ ''.1'' \<and>
          rewired g g' n [(length g + 4, 0), (length g + 6, 0)])) \<and>
     (node_op (g ! n) = ArmAvgPool s pb pe k ep rt ap os \<and> 1 \<le> length (inputs (g ! n)) \<longrightarrow>
       (\<exists>g'. ConvertArmAvgPoolLayout_callback h g n = Inr (True, g') \<and>
          length g' = length g + 5 \<and>
          map node_op (drop (length g) g') =
            [Constant i32 [length (to_channel_last rank)] (to_channel_last rank), Transpose,
             ArmAvgPool s pb pe k ep rt ap (apply_transpose (to_channel_last rank) shape),
             Constant i32 [length (to_channel_first rank)] (to_channel_first rank), Transpose] \<and>
          is_transpose g' (length g + 1) (inputs (g ! n) ! 0) (to_channel_last rank) \<and>
          inputs (g' ! (length g + 2)) = [(length g + 1, 0)] \<and>
          is_transpose g' (length g + 4) (length g + 2, 0) (to_channel_first rank) \<and>
          friendly_name (g' ! (length g + 4)) = get_friendly_name h g n \<and>
          rewired g g' n [(length g + 4, 0)]))"
proof (intro conjI impI)
  assume a: "node_op (g ! n) = ArmConvolution s cpb cpe d ap os \<and> 2 \<le> length (inputs (g ! n))"
  then obtain in0 in1 ins where ins: "inputs (g ! n) = in0 # in1 # ins"
    using two_inputs by blast
  with assms(6) have "fst in0 \<noteq> n" "fst in1 \<noteq> n" "\<forall>src \<in> set ins. fst src \<noteq> n"
    by simp_all
  from conv_rewrite [OF assms(1,2) conjunct1 [OF a] assms(3,4,5) ins this]
  show "\<exists>g'. ConvertArmConvolutionLayout_callback h g n = Inr (True, g') \<and>
          length g' = length g + 7 \<and>
          map node_op (drop (length g) g') =
            [Constant i32 [length (to_channel_last rank)] (to_channel_last rank), Transpose, Constant i32 [length (to_channel_last rank)] (to_channel_last rank), Transpose,
             ArmConvolution s cpb cpe d ap (apply_transpose (to_channel_last rank) shape),
             Constant i32 [length (to_channel_first rank)] (to_channel_first rank), Transpose] \<and>
          is_transpose g' (length g + 1) (inputs (g ! n) ! 0) (to_channel_last rank) \<and>
          is_transpose g' (length g + 3) (inputs (g ! n) ! 1) (to_channel_last rank) \<and>
          inputs (g' ! (length g + 4)) =
            (length g + 1, 0) # (length g + 3, 0) # take 1 (drop 2 (inputs (g ! n))) \<and>
          is_transpose g' (length g + 6) (length g + 4, 0) (to_channel_first rank) \<and>
          friendly_name (g' ! (length g + 6)) = get_friendly_name h g n \<and>
          rewired g g' n [(length g + 6, 0)]"
    by (elim exE conjE) (rule exI, simp add: ins)
next
  assume a: "node_op (g ! n) = ArmMaxPoolV1 s pb pe k rt ap os \<and> 1 \<le> length (inputs (g ! n))"
  then obtain in0 ins where ins: "inputs (g ! n) = in0 # ins"
    using one_input by blast
  with assms(6) have "fst in0 \<noteq> n" by simp
  from v1_rewrite [OF assms(1,2) conjunct1 [OF a] assms(3,4,5) ins this]
  show "\<exists>g'. ConvertArmMaxPoolV1Layout_callback h g n = Inr (True, g') \<and>
          length g' = length g + 5 \<and>
          map node_op (drop (length g) g') =
            [Constant i32 [length (to_channel_last rank)] (to_channel_last rank), Transpose,
             ArmMaxPoolV1 s pb pe k rt ap (apply_transpose (to_channel_last rank) shape),
             Constant i32 [length (to_channel_first rank)] (to_channel_first rank), Transpose] \<and>
          is_transpose g' (length g + 1) (inputs (g ! n) ! 0) (to_channel_last rank) \<and>
          inputs (g' ! (length g + 2)) = [(length g + 1, 0)] \<and>
          is_transpose g' (length g + 4) (length g + 2, 0) (to_channel_first rank) \<and>
          friendly_name (g' ! (length g + 4)) = get_friendly_name h g n \<and>
          rewired g g' n [(length g + 4, 0)]"
    by (elim exE conjE) (rule exI, simp add: ins)
next
  assume a: "node_op (g ! n) = ArmMaxPoolV8 s d pb pe k rt ap iet axis os \<and>
      1 \<le> length (inputs (g ! n)) \<and> axis \<le> 1 \<and> (0 \<le> axis \<or> axis < - int rank)"
  then obtain in0 ins where ins: "inputs (g ! n) = in0 # ins"
    using one_input by blast
  with assms(6) have l: "fst in0 \<noteq> n" by simp
  from a have op: "node_op (g ! n) = ArmMaxPoolV8 s d pb pe k rt ap iet axis os"
    and ax: "axis \<le> 1" "0 \<le> axis \<or> axis < - int rank" by simp_all
  from v8_rewrite [OF assms(1,2) op assms(3,4,5) ax ins l]
  show "\<exists>g'. ConvertArmMaxPoolV8Layout_callback h g n = Inr (True, g') \<and>
          length g' = length g + 7 \<and>
          map node_op (drop (length g) g') =
            [Constant i32 [length (to_channel_last rank)] (to_channel_last rank), Transpose,
             ArmMaxPoolV8 s d pb pe k rt ap iet axis (apply_transpose (to_channel_last rank) shape),
             Constant i32 [length (to_channel_first rank)] (to_channel_first rank), Transpose, Constant i32 [length (to_channel_first rank)] (to_channel_first rank), Transpose] \<and>
          is_transpose g' (length g + 1) (inputs (g ! n) ! 0) (to_channel_last rank) \<and>
          inputs (g' ! (length g + 2)) = [(length g + 1, 0)] \<and>
          is_transpose g' (length g + 4) (length g + 2, 0) (to_channel_first rank) \<and>
          friendly_name (g' ! (length g + 4)) = get_friendly_name h g n @ ''.0'' \<and>
          is_transpose g' (length g + 6) (length g + 2, 1) (to_channel_first rank) \<and>
          friendly_name (g' ! (length g + 6)) = get_friendly_name h g n @ ''.1'' \<and>
          rewired g g' n [(length g + 4, 0), (length g + 6, 0)]"
    by (elim exE conjE) (rule exI, simp add: ins)
next
  assume a: "node_op (g ! n) = ArmAvgPool s pb pe k ep rt ap os \<and> 1 \<le> length (inputs (g ! n))"
  then obtain in0 ins where ins: "inputs (g ! n) = in0 # ins"
    using one_input by blast
  with assms(6) have "fst in0 \<noteq> n" by simp
  from avg_rewrite [OF assms(1,2) conjunct1 [OF a] assms(3,4,5) ins this]
  show "\<exists>g'. ConvertArmAvgPoolLayout_callback h g n = Inr (True, g') \<and>
          length g' = length g + 5 \<and>
          map node_op (drop (length g) g') =
            [Constant i32 [length (to_channel_last rank)] (to_channel_last rank), Transpose,
             ArmAvgPool s pb pe k ep rt ap (apply_transpose (to_channel_last rank) shape),
             Constant i32 [length (to_channel_first rank)] (to_channel_first rank), Transpose] \<and>
          is_transpose g' (length g + 1) (inputs (g ! n) ! 0) (to_channel_last rank) \<and>
          inputs (g' ! (length g + 2)) = [(length g + 1, 0)] \<and>
          is_transpose g' (length g + 4) (length g + 2, 0) (to_channel_first rank) \<and>
          friendly_name (g' ! (length g + 4)) = get_friendly_name h g n \<and>
          rewired g g' n [(length g + 4, 0)]"
    by (elim exE conjE) (rule exI, simp add: ins)
qed

theorem layout_passes_replace_matched_node_witness:
  "(\<exists>g'. ConvertArmConvolutionLayout_callback example_host example_conv_graph 3 = Inr (True, g') \<and>
          length g' = length example_conv_graph + 7 \<and>
          map node_op (drop (length example_conv_graph) g') =
            [Constant i32 [length (to_channel_last 4)] (to_channel_last 4), Transpose, Constant i32 [length (to_channel_last 4)] (to_channel_last 4), Transpose,
             ArmConvolution [1, 1] [1, 1] [1, 1] [1, 1] EXPLICIT (apply_transpose (to_channel_last 4) example_shape),
             Constant i32 [length (to_channel_first 4)] (to_channel_first 4), Transpose] \<and>
          is_transpose g' (length example_conv_graph + 1) (inputs (example_conv_graph ! 3) ! 0) (to_channel_last 4) \<and>
          is_transpose g' (length example_conv_graph + 3) (inputs (example_conv_graph ! 3) ! 1) (to_channel_last 4) \<and>
          inputs (g' ! (length example_conv_graph + 4)) =
            (length example_conv_graph + 1, 0) # (length example_conv_graph + 3, 0) # take 1 (drop 2 (inputs (example_conv_graph ! 3))) \<and>
          is_transpose g' (length example_conv_graph + 6) (length example_conv_graph + 4, 0) (to_channel_first 4) \<and>
          friendly_name (g' ! (length example_conv_graph + 6)) = get_friendly_name example_host example_conv_graph 3 \<and>
          rewired example_conv_graph g' 3 [(length example_conv_graph + 6, 0)]) \<and>
   (\<exists>g'. ConvertArmMaxPoolV1Layout_callback example_host (example_pool_graph example_max_pool_v1) 1 = Inr (True, g') \<and>
          length g' = length (example_pool_graph example_max_pool_v1) + 5 \<and>
          map node_op (drop (length (example_pool_graph example_max_pool_v1)) g') =
            [Constant i32 [length (to_channel_last 4)] (to_channel_last 4), Transpose,
             ArmMaxPoolV1 [2, 2] [0, 0] [0, 0] [2, 2] FLOOR EXPLICIT (apply_transpose (to_channel_last 4) example_shape),
             Constant i32 [length (to_channel_first 4)] (to_channel_first 4), Transpose] \<and>
          is_transpose g' (length (example_pool_graph example_max_pool_v1) + 1) (inputs ((example_pool_graph example_max_pool_v1) ! 1) ! 0) (to_channel_last 4) \<and>
          inputs (g' ! (length (example_pool_graph example_max_pool_v1) + 2)) = [(length (example_pool_graph example_max_pool_v1) + 1, 0)] \<and>
          is_transpose g' (length (example_pool_graph example_max_pool_v1) + 4) (length (example_pool_graph example_max_pool_v1) + 2, 0) (to_channel_first 4) \<and>
          friendly_name (g' ! (length (example_pool_graph example_max_pool_v1) + 4)) = get_friendly_name example_host (example_pool_graph example_max_pool_v1) 1 \<and>
          rewired (example_pool_graph example_max_pool_v1) g' 1 [(length (example_pool_graph example_max_pool_v1) + 4, 0)]) \<and>
   (\<exists>g'. ConvertArmMaxPoolV8Layout_callback example_host (example_pool_graph (example_max_pool_v8 1)) 1 = Inr (True, g') \<and>
          length g' = length (example_pool_graph (example_max_pool_v8 1)) + 7 \<and>
          map node_op (drop (length (example_pool_graph (example_max_pool_v8 1))) g') =
            [Constant i32 [length (to_channel_last 4)] (to_channel_last 4), Transpose,
             ArmMaxPoolV8 [2, 2] [1, 1] [0, 0] [0, 0] [2, 2] FLOOR EXPLICIT i32 1 (apply_transpose (to_channel_last 4) example_shape),
             Constant i32 [length (to_channel_first 4)] (to_channel_first 4), Transpose, Constant i32 [length (to_channel_first 4)] (to_channel_first 4), Transpose] \<and>
          is_transpose g' (length (example_pool_graph (example_max_pool_v8 1)) + 1) (inputs ((example_pool_graph (example_max_pool_v8 1)) ! 1) ! 0) (to_channel_last 4) \<and>
          inputs (g' ! (length (example_pool_graph (example_max_pool_v8 1)) + 2)) = [(length (example_pool_graph (example_max_pool_v8 1)) + 1, 0)] \<and>
          is_transpose g' (length (example_pool_graph (example_max_pool_v8 1)) + 4) (length (example_pool_graph (example_max_pool_v8 1)) + 2, 0) (to_channel_first 4) \<and>
          friendly_name (g' ! (length (example_pool_graph (example_max_pool_v8 1)) + 4)) = get_friendly_name example_host (example_pool_graph (example_max_pool_v8 1)) 1 @ ''.0'' \<and>
          is_transpose g' (length (example_pool_graph (example_max_pool_v8 1)) + 6) (length (example_pool_graph (example_max_pool_v8 1)) + 2, 1) (to_channel_first 4) \<and>
          friendly_name (g' ! (length (example_pool_graph (example_max_pool_v8 1)) + 6)) = get_friendly_name example_host (example_pool_graph (example_max_pool_v8 1)) 1 @ ''.1'' \<and>
          rewired (example_pool_graph (example_max_pool_v8 1)) g' 1 [(length (example_pool_graph (example_max_pool_v8 1)) + 4, 0), (length (example_pool_graph (example_max_pool_v8 1)) + 6, 0)]) \<and>
   (\<exists>g'. ConvertArmAvgPoolLayout_callback example_host (example_pool_graph example_avg_pool) 1 = Inr (True, g') \<and>
          length g' = length (example_pool_graph example_avg_pool) + 5 \<and>
          map node_op (drop (length (example_pool_graph example_avg_pool)) g') =
            [Constant i32 [length (to_channel_last 4)] (to_channel_last 4), Transpose,
             ArmAvgPool [2, 2] [0, 0] [0, 0] [2, 2] True CEIL VALID (apply_transpose (to_channel_last 4) example_shape),
             Constant i32 [length (to_channel_first 4)] (to_channel_first 4), Transpose] \<and>
          is_transpose g' (length (example_pool_graph example_avg_pool) + 1) (inputs ((example_pool_graph example_avg_pool) ! 1) ! 0) (to_channel_last 4) \<and>
          inputs (g' ! (length (example_pool_graph example_avg_pool) + 2)) = [(length (example_pool_graph example_avg_pool) + 1, 0)] \<and>
          is_transpose g' (length (example_pool_graph example_avg_pool) + 4) (length (example_pool_graph example_avg_pool) + 2, 0) (to_channel_first 4) \<and>
          friendly_name (g' ! (length (example_pool_graph example_avg_pool) + 4)) = get_friendly_name example_host (example_pool_graph example_avg_pool) 1 \<and>
          rewired (example_pool_graph example_avg_pool) g' 1 [(length (example_pool_graph example_avg_pool) + 4, 0)])"
proof -
  have len: "length example_shape = 4" by (simp add: example_shape_def)
  have r: "(4::nat) = 4 \<or> (4::nat) = 5" by simp
  have conv: "\<exists>g'. ConvertArmConvolutionLayout_callback example_host example_conv_graph 3 = Inr (True, g') \<and>
          length g' = length example_conv_graph + 7 \<and>
          map node_op (drop (length example_conv_graph) g') =
            [Constant i32 [length (to_channel_last 4)] (to_channel_last 4), Transpose, Constant i32 [length (to_channel_last 4)] (to_channel_last 4), Transpose,
             ArmConvolution [1, 1] [1, 1] [1, 1] [1, 1] EXPLICIT (apply_transpose (to_channel_last 4) example_shape),
             Constant i32 [length (to_channel_first 4)] (to_channel_first 4), Transpose] \<and>
          is_transpose g' (length example_conv_graph + 1) (inputs (example_conv_graph ! 3) ! 0) (to_channel_last 4) \<and>
          is_transpose g' (length example_conv_graph + 3) (inputs (example_conv_graph ! 3) ! 1) (to_channel_last 4) \<and>
          inputs (g' ! (length example_conv_graph + 4)) =
            (length example_conv_graph + 1, 0) # (length example_conv_graph + 3, 0) # take 1 (drop 2 (inputs (example_conv_graph ! 3))) \<and>
          is_transpose g' (length example_conv_graph + 6) (length example_conv_graph + 4, 0) (to_channel_first 4) \<and>
          friendly_name (g' ! (length example_conv_graph + 6)) = get_friendly_name example_host example_conv_graph 3 \<and>
          rewired example_conv_graph g' 3 [(length example_conv_graph + 6, 0)]"
  proof -
    have n: "3 < length example_conv_graph" and tc: "\<not> transformation_callback example_host example_conv_graph 3"
      and sh: "get_output_partial_shape (example_conv_graph ! 3) 0 = Inr example_shape"
      and loop: "\<forall>src \<in> set (inputs (example_conv_graph ! 3)). fst src \<noteq> 3"
      and op: "node_op (example_conv_graph ! 3) = ArmConvolution [1, 1] [1, 1] [1, 1] [1, 1] EXPLICIT [] \<and> 2 \<le> length (inputs (example_conv_graph ! 3))"
      by (simp_all add: get_output_partial_shape_def example_defs)
    from layout_passes_replace_matched_node [OF n tc sh len r loop, THEN conjunct1, rule_format, OF op]
    show ?thesis .
  qed
  have v1: "\<exists>g'. ConvertArmMaxPoolV1Layout_callback example_host (example_pool_graph example_max_pool_v1) 1 = Inr (True, g') \<and>
          length g' = length (example_pool_graph example_max_pool_v1) + 5 \<and>
          map node_op (drop (length (example_pool_graph example_max_pool_v1)) g') =
            [Constant i32 [length (to_channel_last 4)] (to_channel_last 4), Transpose,
             ArmMaxPoolV1 [2, 2] [0, 0] [0, 0] [2, 2] FLOOR EXPLICIT (apply_transpose (to_channel_last 4) example_shape),
             Constant i32 [length (to_channel_first 4)] (to_channel_first 4), Transpose] \<and>
          is_transpose g' (length (example_pool_graph example_max_pool_v1) + 1) (inputs ((example_pool_graph example_max_pool_v1) ! 1) ! 0) (to_channel_last 4) \<and>
          inputs (g' ! (length (example_pool_graph example_max_pool_v1) + 2)) = [(length (example_pool_graph example_max_pool_v1) + 1, 0)] \<and>
          is_transpose g' (length (example_pool_graph example_max_pool_v1) + 4) (length (example_pool_graph example_max_pool_v1) + 2, 0) (to_channel_first 4) \<and>
          friendly_name (g' ! (length (example_pool_graph example_max_pool_v1) + 4)) = get_friendly_name example_host (example_pool_graph example_max_pool_v1) 1 \<and>
          rewired (example_pool_graph example_max_pool_v1) g' 1 [(length (example_pool_graph example_max_pool_v1) + 4, 0)]"
  proof -
    have n: "1 < length (example_pool_graph example_max_pool_v1)" and tc: "\<not> transformation_callback example_host (example_pool_graph example_max_pool_v1) 1"
      and sh: "get_output_partial_shape ((example_pool_graph example_max_pool_v1) ! 1) 0 = Inr example_shape"
      and loop: "\<forall>src \<in> set (inputs ((example_pool_graph example_max_pool_v1) ! 1)). fst src \<noteq> 1"
      and op: "node_op ((example_pool_graph example_max_pool_v1) ! 1) = ArmMaxPoolV1 [2, 2] [0, 0] [0, 0] [2, 2] FLOOR EXPLICIT [] \<and> 1 \<le> length (inputs ((example_pool_graph example_max_pool_v1) ! 1))"
      by (simp_all add: get_output_partial_shape_def example_defs)
    from layout_passes_replace_matched_node [OF n tc sh len r loop, THEN conjunct2, THEN conjunct1, rule_format, OF op]
    show ?thesis .
  qed
  have v8: "\<exists>g'. ConvertArmMaxPoolV8Layout_callback example_host (example_pool_graph (example_max_pool_v8 1)) 1 = Inr (True, g') \<and>
          length g' = length (example_pool_graph (example_max_pool_v8 1)) + 7 \<and>
          map node_op (drop (length (example_pool_graph (example_max_pool_v8 1))) g') =
            [Constant i32 [length (to_channel_last 4)] (to_channel_last 4), Transpose,
             ArmMaxPoolV8 [2, 2] [1, 1] [0, 0] [0, 0] [2, 2] FLOOR EXPLICIT i32 1 (apply_transpose (to_channel_last 4) example_shape),
             Constant i32 [length (to_channel_first 4)] (to_channel_first 4), Transpose, Constant i32 [length (to_channel_first 4)] (to_channel_first 4), Transpose] \<and>
          is_transpose g' (length (example_pool_graph (example_max_pool_v8 1)) + 1) (inputs ((example_pool_graph (example_max_pool_v8 1)) ! 1) ! 0) (to_channel_last 4) \<and>
          inputs (g' ! (length (example_pool_graph (example_max_pool_v8 1)) + 2)) = [(length (example_pool_graph (example_max_pool_v8 1)) + 1, 0)] \<and>
          is_transpose g' (length (example_pool_graph (example_max_pool_v8 1)) + 4) (length (example_pool_graph (example_max_pool_v8 1)) + 2, 0) (to_channel_first 4) \<and>
          friendly_name (g' ! (length (example_pool_graph (example_max_pool_v8 1)) + 4)) = get_friendly_name example_host (example_pool_graph (example_max_pool_v8 1)) 1 @ ''.0'' \<and>
          is_transpose g' (length (example_pool_graph (example_max_pool_v8 1)) + 6) (length (example_pool_graph (example_max_pool_v8 1)) + 2, 1) (to_channel_first 4) \<and>
          friendly_name (g' ! (length (example_pool_graph (example_max_pool_v8 1)) + 6)) = get_friendly_name example_host (example_pool_graph (example_max_pool_v8 1)) 1 @ ''.1'' \<and>
          rewired (example_pool_graph (example_max_pool_v8 1)) g' 1 [(length (example_pool_graph (example_max_pool_v8 1)) + 4, 0), (length (example_pool_graph (example_max_pool_v8 1)) + 6, 0)]"
  proof -
    have n: "1 < length (example_pool_graph (example_max_pool_v8 1))" and tc: "\<not> transformation_callback example_host (example_pool_graph (example_max_pool_v8 1)) 1"
      and sh: "get_output_partial_shape ((example_pool_graph (example_max_pool_v8 1)) ! 1) 0 = Inr example_shape"
      and loop: "\<forall>src \<in> set (inputs ((example_pool_graph (example_max_pool_v8 1)) ! 1)). fst src \<noteq> 1"
      and op: "node_op ((example_pool_graph (example_max_pool_v8 1)) ! 1) = ArmMaxPoolV8 [2, 2] [1, 1] [0, 0] [0, 0] [2, 2] FLOOR EXPLICIT i32 1 [] \<and> 1 \<le> length (inputs ((example_pool_graph (example_max_pool_v8 1)) ! 1)) \<and> (1::int) \<le> 1 \<and> ((0::int) \<le> 1 \<or> (1::int) < - int 4)"
      by (simp_all add: get_output_partial_shape_def example_defs)
    from layout_passes_replace_matched_node [OF n tc sh len r loop, THEN conjunct2, THEN conjunct2, THEN conjunct1, rule_format, OF op]
    show ?thesis .
  qed
  have avg: "\<exists>g'. ConvertArmAvgPoolLayout_callback example_host (example_pool_graph example_avg_pool) 1 = Inr (True, g') \<and>
          length g' = length (example_pool_graph example_avg_pool) + 5 \<and>
          map node_op (drop (length (example_pool_graph example_avg_pool)) g') =
            [Constant i32 [length (to_channel_last 4)] (to_channel_last 4), Transpose,
             ArmAvgPool [2, 2] [0, 0] [0, 0] [2, 2] True CEIL VALID (apply_transpose (to_channel_last 4) example_shape),
             Constant i32 [length (to_channel_first 4)] (to_channel_first 4), Transpose] \<and>
          is_transpose g' (length (example_pool_graph example_avg_pool) + 1) (inputs ((example_pool_graph example_avg_pool) ! 1) ! 0) (to_channel_last 4) \<and>
          inputs (g' ! (length (example_pool_graph example_avg_pool) + 2)) = [(length (example_pool_graph example_avg_pool) + 1, 0)] \<and>
          is_transpose g' (length (example_pool_graph example_avg_pool) + 4) (length (example_pool_graph example_avg_pool) + 2, 0) (to_channel_first 4) \<and>
          friendly_name (g' ! (length (example_pool_graph example_avg_pool) + 4)) = get_friendly_name example_host (example_pool_graph example_avg_pool) 1 \<and>
          rewired (example_pool_graph example_avg_pool) g' 1 [(length (example_pool_graph example_avg_pool) + 4, 0)]"
  proof -
    have n: "1 < length (example_pool_graph example_avg_pool)" and tc: "\<not> transformation_callback example_host (example_pool_graph example_avg_pool) 1"
      and sh: "get_output_partial_shape ((example_pool_graph example_avg_pool) ! 1) 0 = Inr example_shape"
      and loop: "\<forall>src \<in> set (inputs ((example_pool_graph example_avg_pool) ! 1)). fst src \<noteq> 1"
      and op: "node_op ((example_pool_graph example_avg_pool) ! 1) = ArmAvgPool [2, 2] [0, 0] [0, 0] [2, 2] True CEIL VALID [] \<and> 1 \<le> length (inputs ((example_pool_graph example_avg_pool) ! 1))"
      by (simp_all add: get_output_partial_shape_def example_defs)
    from layout_passes_replace_matched_node [OF n tc sh len r loop, THEN conjunct2, THEN conjunct2, THEN conjunct2, rule_format, OF op]
    show ?thesis .
  qed
  from conv v1 v8 avg show ?thesis by (intro conjI)
qed

text \<open>
  C2 as stated lets the rank and the exclusion predicate alone decide: a MaxPool-8 of
  rank 4 with axis 2, which nothing excludes, is left in place by its pass.
\<close>

theorem maxpool_v8_axis_2_is_not_replaced:
  "\<not> transformation_callback example_host (example_pool_graph (example_max_pool_v8 2)) 1 \<and>
   is_ArmMaxPoolV8 (node_op (example_pool_graph (example_max_pool_v8 2) ! 1)) \<and>
   get_output_partial_shape (example_pool_graph (example_max_pool_v8 2) ! 1) 0 =
     Inr example_shape \<and>
   length example_shape = 4 \<and>
   ConvertArmMaxPoolV8Layout_callback example_host (example_pool_graph (example_max_pool_v8 2)) 1 =
     Inr (False, example_pool_graph (example_max_pool_v8 2))"
  by (simp add: ConvertArmMaxPoolV8Layout_callback_def eval_defs example_defs)

subsection \<open>The attributes of the replacement operator\<close>

text \<open>
  C4 (amended): each layout pass copies every attribute of the original operator
  unchanged onto the replacement operator: strides, pads_begin, pads_end and auto_pad in
  all four passes; the kernel in the three pooling passes (a convolution has no kernel
  attribute); dilations for convolution and MaxPool-8; the rounding type in the pooling
  passes; exclude_pad for AvgPool; index element type and axis for MaxPool-8. Only the
  inputs and the declared output shape differ.
\<close>

theorem layout_passes_copy_attributes:
  assumes "n < length g" and "\<not> transformation_callback h g n"
    and "get_output_partial_shape (g ! n) 0 = Inr shape" and "length shape = rank"
    and "rank = 4 \<or> rank = 5"
    and "\<forall>src \<in> set (inputs (g ! n)). fst src \<noteq> n"
  shows
    "(node_op (g ! n) = ArmConvolution strides cpads_begin cpads_end dilations auto_pad os \<and>
      2 \<le> length (inputs (g ! n)) \<longrightarrow>
       (\<exists>g'. ConvertArmConvolutionLayout_callback h g n = Inr (True, g') \<and>
          is_transpose g' (length g + 6) (length g + 4, 0) (to_channel_first rank) \<and>
          node_op (g' ! (length g + 4)) =
            ArmConvolution strides cpads_begin cpads_end dilations auto_pad
              (apply_transpose (to_channel_last rank) shape) \<and>
          get_kernel (node_op (g ! n)) = None)) \<and>
     (node_op (g ! n) = ArmMaxPoolV1 strides pads_begin pads_end kernel_shape rounding auto_pad os \<and>
      1 \<le> length (inputs (g ! n)) \<longrightarrow>
       (\<exists>g'. ConvertArmMaxPoolV1Layout_callback h g n = Inr (True, g') \<and>
          is_transpose g' (length g + 4) (length g + 2, 0) (to_channel_first rank) \<and>
          node_op (g' ! (length g + 2)) =
            ArmMaxPoolV1 strides pads_begin pads_end kernel_shape rounding auto_pad
              (apply_transpose (to_channel_last rank) shape) \<and>
          get_kernel (node_op (g' ! (length g + 2))) = Some kernel_shape)) \<and>
     (node_op (g ! n) = ArmMaxPoolV8 strides dilations pads_begin pads_end kernel_shape rounding
         auto_pad index_element_type axis os \<and>
      1 \<le> length (inputs (g ! n)) \<and> axis \<le> 1 \<and> (0 \<le> axis \<or> axis < - int rank) \<longrightarrow>
       (\<exists>g'. ConvertArmMaxPoolV8Layout_callback h g n = Inr (True, g') \<and>
          is_transpose g' (length g + 4) (length g + 2, 0) (to_channel_first rank) \<and>
          is_transpose g' (length g + 6) (length g + 2, 1) (to_channel_first rank) \<and>
          node_op (g' ! (length g + 2)) =
            ArmMaxPoolV8 strides dilations pads_begin pads_end kernel_shape rounding auto_pad
              index_element_type axis (apply_transpose (to_channel_last rank) shape) \<and>
          get_kernel (node_op (g' ! (length g + 2))) = Some kernel_shape)) \<and>
     (node_op (g ! n) = ArmAvgPool strides pads_begin pads_end kernel_shape exclude_pad rounding
         auto_pad os \<and>
      1 \<le> length (inputs (g ! n)) \<longrightarrow>
       (\<exists>g'. ConvertArmAvgPoolLayout_callback h g n = Inr (True, g') \<and>
          is_transpose g' (length g + 4) (length g + 2, 0) (to_channel_first rank) \<and>
          node_op (g' ! (length g + 2)) =
            ArmAvgPool strides pads_begin pads_end kernel_shape exclude_pad rounding auto_pad
              (apply_transpose (to_channel_last rank) shape) \<and>
          get_kernel (node_op (g' ! (length g + 2))) = Some kernel_shape))"
proof (intro conjI impI)
  assume a: "node_op (g ! n) = ArmConvolution strides cpads_begin cpads_end dilations auto_pad os \<and>
      2 \<le> length (inputs (g ! n))"
  then obtain in0 in1 ins where ins: "inputs (g ! n) = in0 # in1 # ins"
    using two_inputs by blast
  with assms(6) have "fst in0 \<noteq> n" "fst in1 \<noteq> n" "\<forall>src \<in> set ins. fst src \<noteq> n"
    by simp_all
  from conv_rewrite [OF assms(1,2) conjunct1 [OF a] assms(3,4,5) ins this] a
  show "\<exists>g'. ConvertArmConvolutionLayout_callback h g n = Inr (True, g') \<and>
          is_transpose g' (length g + 6) (length g + 4, 0) (to_channel_first rank) \<and>
          node_op (g' ! (length g + 4)) =
            ArmConvolution strides cpads_begin cpads_end dilations auto_pad
              (apply_transpose (to_channel_last rank) shape) \<and>
          get_kernel (node_op (g ! n)) = None"
    by (elim exE conjE, intro exI conjI) (assumption | simp)+
next
  assume a: "node_op (g ! n) = ArmMaxPoolV1 strides pads_begin pads_end kernel_shape rounding auto_pad os \<and>
      1 \<le> length (inputs (g ! n))"
  then obtain in0 ins where ins: "inputs (g ! n) = in0 # ins"
    using one_input by blast
  with assms(6) have "fst in0 \<noteq> n" by simp
  from v1_rewrite [OF assms(1,2) conjunct1 [OF a] assms(3,4,5) ins this]
  show "\<exists>g'. ConvertArmMaxPoolV1Layout_callback h g n = Inr (True, g') \<and>
          is_transpose g' (length g + 4) (length g + 2, 0) (to_channel_first rank) \<and>
          node_op (g' ! (length g + 2)) =
            ArmMaxPoolV1 strides pads_begin pads_end kernel_shape rounding auto_pad
              (apply_transpose (to_channel_last rank) shape) \<and>
          get_kernel (node_op (g' ! (length g + 2))) = Some kernel_shape"
    by (elim exE conjE, intro exI conjI) (assumption | simp)+
next
  assume a: "node_op (g ! n) = ArmMaxPoolV8 strides dilations pads_begin pads_end kernel_shape rounding
         auto_pad index_element_type axis os \<and>
      1 \<le> length (inputs (g ! n)) \<and> axis \<le> 1 \<and> (0 \<le> axis \<or> axis < - int rank)"
  then obtain in0 ins where ins: "inputs (g ! n) = in0 # ins"
    using one_input by blast
  with assms(6) have l: "fst in0 \<noteq> n" by simp
  from a have op: "node_op (g ! n) = ArmMaxPoolV8 strides dilations pads_begin pads_end
      kernel_shape rounding auto_pad index_element_type axis os"
    and ax: "axis \<le> 1" "0 \<le> axis \<or> axis < - int rank" by simp_all
  from v8_rewrite [OF assms(1,2) op assms(3,4,5) ax ins l]
  show "\<exists>g'. ConvertArmMaxPoolV8Layout_callback h g n = Inr (True, g') \<and>
          is_transpose g' (length g + 4) (length g + 2, 0) (to_channel_first rank) \<and>
          is_transpose g' (length g + 6) (length g + 2, 1) (to_channel_first rank) \<and>
          node_op (g' ! (length g + 2)) =
            ArmMaxPoolV8 strides dilations pads_begin pads_end kernel_shape rounding auto_pad
              index_element_type axis (apply_transpose (to_channel_last rank) shape) \<and>
          get_kernel (node_op (g' ! (length g + 2))) = Some kernel_shape"
    by (elim exE conjE, intro exI conjI) (assumption | simp)+
next
  assume a: "node_op (g ! n) = ArmAvgPool strides pads_begin pads_end kernel_shape exclude_pad rounding
         auto_pad os \<and>
      1 \<le> length (inputs (g ! n))"
  then obtain in0 ins where ins: "inputs (g ! n) = in0 # ins"
    using one_input by blast
  with assms(6) have "fst in0 \<noteq> n" by simp
  from avg_rewrite [OF assms(1,2) conjunct1 [OF a] assms(3,4,5) ins this]
  show "\<exists>g'. ConvertArmAvgPoolLayout_callback h g n = Inr (True, g') \<and>
          is_transpose g' (length g + 4) (length g + 2, 0) (to_channel_first rank) \<and>
          node_op (g' ! (length g + 2)) =
            ArmAvgPool strides pads_begin pads_end kernel_shape exclude_pad rounding auto_pad
              (apply_transpose (to_channel_last rank) shape) \<and>
          get_kernel (node_op (g' ! (length g + 2))) = Some kernel_shape"
    by (elim exE conjE, intro exI conjI) (assumption | simp)+
qed

theorem layout_passes_copy_attributes_witness:
  "(\<exists>g'. ConvertArmConvolutionLayout_callback example_host example_conv_graph 3 = Inr (True, g') \<and>
          is_transpose g' (length example_conv_graph + 6) (length example_conv_graph + 4, 0) (to_channel_first 4) \<and>
          node_op (g' ! (length example_conv_graph + 4)) =
            ArmConvolution [1, 1] [1, 1] [1, 1] [1, 1] EXPLICIT (apply_transpose (to_channel_last 4) example_shape) \<and>
          get_kernel (node_op (example_conv_graph ! 3)) = None) \<and>
   (\<exists>g'. ConvertArmMaxPoolV1Layout_callback example_host (example_pool_graph example_max_pool_v1) 1 = Inr (True, g') \<and>
          is_transpose g' (length (example_pool_graph example_max_pool_v1) + 4) (length (example_pool_graph example_max_pool_v1) + 2, 0) (to_channel_first 4) \<and>
          node_op (g' ! (length (example_pool_graph example_max_pool_v1) + 2)) =
            ArmMaxPoolV1 [2, 2] [0, 0] [0, 0] [2, 2] FLOOR EXPLICIT (apply_transpose (to_channel_last 4) example_shape) \<and>
          get_kernel (node_op (g' ! (length (example_pool_graph example_max_pool_v1) + 2))) = Some [2, 2]) \<and>
   (\<exists>g'. ConvertArmMaxPoolV8Layout_callback example_host (example_pool_graph (example_max_pool_v8 1)) 1 = Inr (True, g') \<and>
          is_transpose g' (length (example_pool_graph (example_max_pool_v8 1)) + 4) (length (example_pool_graph (example_max_pool_v8 1)) + 2, 0) (to_channel_first 4) \<and>
          is_transpose g' (length (example_pool_graph (example_max_pool_v8 1)) + 6) (length (example_pool_graph (example_max_pool_v8 1)) + 2, 1) (to_channel_first 4) \<and>
          node_op (g' ! (length (example_pool_graph (example_max_pool_v8 1)) + 2)) =
            ArmMaxPoolV8 [2, 2] [1, 1] [0, 0] [0, 0] [2, 2] FLOOR EXPLICIT i32 1 (apply_transpose (to_channel_last 4) example_shape) \<and>
          get_kernel (node_op (g' ! (length (example_pool_graph (example_max_pool_v8 1)) + 2))) = Some [2, 2]) \<and>
   (\<exists>g'. ConvertArmAvgPoolLayout_callback example_host (example_pool_graph example_avg_pool) 1 = Inr (True, g') \<and>
          is_transpose g' (length (example_pool_graph example_avg_pool) + 4) (length (example_pool_graph example_avg_pool) + 2, 0) (to_channel_first 4) \<and>
          node_op (g' ! (length (example_pool_graph example_avg_pool) + 2)) =
            ArmAvgPool [2, 2] [0, 0] [0, 0] [2, 2] True CEIL VALID (apply_transpose (to_channel_last 4) example_shape) \<and>
          get_kernel (node_op (g' ! (length (example_pool_graph example_avg_pool) + 2))) = Some [2, 2])"
proof -
  have len: "length example_shape = 4" by (simp add: example_shape_def)
  have r: "(4::nat) = 4 \<or> (4::nat) = 5" by simp
  have conv: "\<exists>g'. ConvertArmConvolutionLayout_callback example_host example_conv_graph 3 = Inr (True, g') \<and>
          is_transpose g' (length example_conv_graph + 6) (length example_conv_graph + 4, 0) (to_channel_first 4) \<and>
          node_op (g' ! (length example_conv_graph + 4)) =
            ArmConvolution [1, 1] [1, 1] [1, 1] [1, 1] EXPLICIT (apply_transpose (to_channel_last 4) example_shape) \<and>
          get_kernel (node_op (example_conv_graph ! 3)) = None"
  proof -
    have n: "3 < length example_conv_graph" and tc: "\<not> transformation_callback example_host example_conv_graph 3"
      and sh: "get_output_partial_shape (example_conv_graph ! 3) 0 = Inr example_shape"
      and loop: "\<forall>src \<in> set (inputs (example_conv_graph ! 3)). fst src \<noteq> 3"
      and op: "node_op (example_conv_graph ! 3) = ArmConvolution [1, 1] [1, 1] [1, 1] [1, 1] EXPLICIT [] \<and> 2 \<le> length (inputs (example_conv_graph ! 3))"
      by (simp_all add: get_output_partial_shape_def example_defs)
    from layout_passes_copy_attributes [OF n tc sh len r loop, THEN conjunct1, rule_format, OF op]
    show ?thesis .
  qed
  have v1: "\<exists>g'. ConvertArmMaxPoolV1Layout_callback example_host (example_pool_graph example_max_pool_v1) 1 = Inr (True, g') \<and>
          is_transpose g' (length (example_pool_graph example_max_pool_v1) + 4) (length (example_pool_graph example_max_pool_v1) + 2, 0) (to_channel_first 4) \<and>
          node_op (g' ! (length (example_pool_graph example_max_pool_v1) + 2)) =
            ArmMaxPoolV1 [2, 2] [0, 0] [0, 0] [2, 2] FLOOR EXPLICIT (apply_transpose (to_channel_last 4) example_shape) \<and>
          get_kernel (node_op (g' ! (length (example_pool_graph example_max_pool_v1) + 2))) = Some [2, 2]"
  proof -
    have n: "1 < length (example_pool_graph example_max_pool_v1)" and tc: "\<not> transformation_callback example_host (example_pool_graph example_max_pool_v1) 1"
      and sh: "get_output_partial_shape ((example_pool_graph example_max_pool_v1) ! 1) 0 = Inr example_shape"
      and loop: "\<forall>src \<in> set (inputs ((example_pool_graph example_max_pool_v1) ! 1)). fst src \<noteq> 1"
      and op: "node_op ((example_pool_graph example_max_pool_v1) ! 1) = ArmMaxPoolV1 [2, 2] [0, 0] [0, 0] [2, 2] FLOOR EXPLICIT [] \<and> 1 \<le> length (inputs ((example_pool_graph example_max_pool_v1) ! 1))"
      by (simp_all add: get_output_partial_shape_def example_defs)
    from layout_passes_copy_attributes [OF n tc sh len r loop, THEN conjunct2, THEN conjunct1, rule_format, OF op]
    show ?thesis .
  qed
  have v8: "\<exists>g'. ConvertArmMaxPoolV8Layout_callback example_host (example_pool_graph (example_max_pool_v8 1)) 1 = Inr (True, g') \<and>
          is_transpose g' (length (example_pool_graph (example_max_pool_v8 1)) + 4) (length (example_pool_graph (example_max_pool_v8 1)) + 2, 0) (to_channel_first 4) \<and>
          is_transpose g' (length (example_pool_graph (example_max_pool_v8 1)) + 6) (length (example_pool_graph (example_max_pool_v8 1)) + 2, 1) (to_channel_first 4) \<and>
          node_op (g' ! (length (example_pool_graph (example_max_pool_v8 1)) + 2)) =
            ArmMaxPoolV8 [2, 2] [1, 1] [0, 0] [0, 0] [2, 2] FLOOR EXPLICIT i32 1 (apply_transpose (to_channel_last 4) example_shape) \<and>
          get_kernel (node_op (g' ! (length (example_pool_graph (example_max_pool_v8 1)) + 2))) = Some [2, 2]"
  proof -
    have n: "1 < length (example_pool_graph (example_max_pool_v8 1))" and tc: "\<not> transformation_callback example_host (example_pool_graph (example_max_pool_v8 1)) 1"
      and sh: "get_output_partial_shape ((example_pool_graph (example_max_pool_v8 1)) ! 1) 0 = Inr example_shape"
      and loop: "\<forall>src \<in> set (inputs ((example_pool_graph (example_max_pool_v8 1)) ! 1)). fst src \<noteq> 1"
      and op: "node_op ((example_pool_graph (example_max_pool_v8 1)) ! 1) = ArmMaxPoolV8 [2, 2] [1, 1] [0, 0] [0, 0] [2, 2] FLOOR EXPLICIT i32 1 [] \<and> 1 \<le> length (inputs ((example_pool_graph (example_max_pool_v8 1)) ! 1)) \<and> (1::int) \<le> 1 \<and> ((0::int) \<le> 1 \<or> (1::int) < - int 4)"
      by (simp_all add: get_output_partial_shape_def example_defs)
    from layout_passes_copy_attributes [OF n tc sh len r loop, THEN conjunct2, THEN conjunct2, THEN conjunct1, rule_format, OF op]
    show ?thesis .
  qed
  have avg: "\<exists>g'. ConvertArmAvgPoolLayout_callback example_host (example_pool_graph example_avg_pool) 1 = Inr (True, g') \<and>
          is_transpose g' (length (example_pool_graph example_avg_pool) + 4) (length (example_pool_graph example_avg_pool) + 2, 0) (to_channel_first 4) \<and>
          node_op (g' ! (length (example_pool_graph example_avg_pool) + 2)) =
            ArmAvgPool [2, 2] [0, 0] [0, 0] [2, 2] True CEIL VALID (apply_transpose (to_channel_last 4) example_shape) \<and>
          get_kernel (node_op (g' ! (length (example_pool_graph example_avg_pool) + 2))) = Some [2, 2]"
  proof -
    have n: "1 < length (example_pool_graph example_avg_pool)" and tc: "\<not> transformation_callback example_host (example_pool_graph example_avg_pool) 1"
      and sh: "get_output_partial_shape ((example_pool_graph example_avg_pool) ! 1) 0 = Inr example_shape"
      and loop: "\<forall>src \<in> set (inputs ((example_pool_graph example_avg_pool) ! 1)). fst src \<noteq> 1"
      and op: "node_op ((example_pool_graph example_avg_pool) ! 1) = ArmAvgPool [2, 2] [0, 0] [0, 0] [2, 2] True CEIL VALID [] \<and> 1 \<le> length (inputs ((example_pool_graph example_avg_pool) ! 1))"
      by (simp_all add: get_output_partial_shape_def example_defs)
    from layout_passes_copy_attributes [OF n tc sh len r loop, THEN conjunct2, THEN conjunct2, THEN conjunct2, rule_format, OF op]
    show ?thesis .
  qed
  from conv v1 v8 avg show ?thesis by (intro conjI)
qed

text \<open>
  C4 as stated has every pass copy a kernel attribute: the convolution of the example
  has none, and neither has the convolution that replaces it.
\<close>

theorem convolution_has_no_kernel_attribute:
  "is_ArmConvolution (node_op (example_conv_graph ! 3)) \<and>
   get_kernel (node_op (example_conv_graph ! 3)) = None \<and>
   ConvertArmConvolutionLayout_callback example_host example_conv_graph 3 =
     Inr (True, snd (projr (ConvertArmConvolutionLayout_callback example_host example_conv_graph 3))) \<and>
   is_ArmConvolution (node_op
     (snd (projr (ConvertArmConvolutionLayout_callback example_host example_conv_graph 3)) ! 9)) \<and>
   get_kernel (node_op
     (snd (projr (ConvertArmConvolutionLayout_callback example_host example_conv_graph 3)) ! 9)) = None"
proof -
  have n: "3 < length example_conv_graph"
    and tc: "\<not> transformation_callback example_host example_conv_graph 3"
    and op: "node_op (example_conv_graph ! 3) = ArmConvolution [1, 1] [1, 1] [1, 1] [1, 1] EXPLICIT []"
    and sh: "get_output_partial_shape (example_conv_graph ! 3) 0 = Inr example_shape"
    and len: "length example_shape = 4"
    and ins: "inputs (example_conv_graph ! 3) = (0, 0) # (1, 0) # [(2, 0)]"
    and l: "length example_conv_graph + 4 = 9"
    by (simp_all add: get_output_partial_shape_def example_defs)
  have r: "(4::nat) = 4 \<or> (4::nat) = 5" by simp
  from conv_rewrite [OF n tc op sh len r ins]
  obtain g' where g': "ConvertArmConvolutionLayout_callback example_host example_conv_graph 3 =
      Inr (True, g')"
    "node_op (g' ! (length example_conv_graph + 4)) =
       ArmConvolution [1, 1] [1, 1] [1, 1] [1, 1] EXPLICIT
         (apply_transpose (to_channel_last 4) example_shape)"
    by auto
  show ?thesis
    using g' op by (simp add: l)
qed

subsection \<open>The axis guard of MaxPool-8\<close>

lemma v8_rewrites_only_if:
  assumes "node_op (g ! n) = ArmMaxPoolV8 s d pb pe k r ap iet axis os"
    and "get_output_partial_shape (g ! n) 0 = Inr shape"
    and "ConvertArmMaxPoolV8Layout_callback h g n = Inr (True, g')"
  shows "axis \<le> 1 \<and> (0 \<le> axis \<or> axis < - int (length shape))"
proof (rule ccontr)
  assume "\<not> (axis \<le> 1 \<and> (0 \<le> axis \<or> axis < - int (length shape)))"
  then have "1 < axis \<or> (- int (length shape) \<le> axis \<and> axis < 0)"
    by auto
  from v8_guard_false [OF assms(1,2) this] assms(3) show False
    by simp
qed

text \<open>
  C6: \<open>ConvertArmMaxPoolV8Layout\<close> rewrites a matched MaxPool-8 node, whose axis is
  not below \<open>-rank\<close> as every valid axis is, only when the axis is 0 or 1: the guard
  returns false for every axis greater than 1 and for every negative axis from \<open>-rank\<close>
  to \<open>-1\<close>, so the negative axes \<open>-rank\<close> and \<open>1 - rank\<close>, which stand for 0 and 1,
  are never rewritten.
\<close>

theorem maxpool_v8_axis_guard:
  assumes "node_op (g ! n) = ArmMaxPoolV8 s d pb pe k r ap iet axis os"
    and "get_output_partial_shape (g ! n) 0 = Inr shape"
    and "- int (length shape) \<le> axis"
  shows "(ConvertArmMaxPoolV8Layout_callback h g n = Inr (True, g') \<longrightarrow> axis = 0 \<or> axis = 1) \<and>
         (1 < axis \<or> axis < 0 \<longrightarrow>
            ConvertArmMaxPoolV8Layout_callback h g n = Inr (False, g)) \<and>
         (1 < length shape \<and> (axis = - int (length shape) \<or> axis = 1 - int (length shape)) \<longrightarrow>
            ConvertArmMaxPoolV8Layout_callback h g n = Inr (False, g))"
proof (intro conjI impI)
  assume "ConvertArmMaxPoolV8Layout_callback h g n = Inr (True, g')"
  from v8_rewrites_only_if [OF assms(1,2) this] assms(3)
  show "axis = 0 \<or> axis = 1"
    by auto
next
  assume "1 < axis \<or> axis < 0"
  with assms(3) have "1 < axis \<or> (- int (length shape) \<le> axis \<and> axis < 0)"
    by auto
  with assms(1,2) show "ConvertArmMaxPoolV8Layout_callback h g n = Inr (False, g)"
    by (rule v8_guard_false)
next
  assume "1 < length shape \<and> (axis = - int (length shape) \<or> axis = 1 - int (length shape))"
  then have "1 < axis \<or> (- int (length shape) \<le> axis \<and> axis < 0)"
    by auto
  with assms(1,2) show "ConvertArmMaxPoolV8Layout_callback h g n = Inr (False, g)"
    by (rule v8_guard_false)
qed

theorem maxpool_v8_axis_guard_witness:
  "node_op (example_pool_graph (example_max_pool_v8 1) ! 1) =
     ArmMaxPoolV8 [2, 2] [1, 1] [0, 0] [0, 0] [2, 2] FLOOR EXPLICIT i32 1 [] \<and>
   get_output_partial_shape (example_pool_graph (example_max_pool_v8 1) ! 1) 0 =
     Inr example_shape \<and>
   - int (length example_shape) \<le> 1 \<and>
   ConvertArmMaxPoolV8Layout_callback example_host (example_pool_graph (example_max_pool_v8 1)) 1 =
     Inr (True, snd (projr (ConvertArmMaxPoolV8Layout_callback example_host
        (example_pool_graph (example_max_pool_v8 1)) 1))) \<and>
   ((1::int) = 0 \<or> (1::int) = 1) \<and>
   node_op (example_pool_graph (example_max_pool_v8 (- 4)) ! 1) =
     ArmMaxPoolV8 [2, 2] [1, 1] [0, 0] [0, 0] [2, 2] FLOOR EXPLICIT i32 (- 4) [] \<and>
   get_output_partial_shape (example_pool_graph (example_max_pool_v8 (- 4)) ! 1) 0 =
     Inr example_shape \<and>
   - int (length example_shape) \<le> - 4 \<and>
   (1 < (- 4 :: int) \<or> (- 4 :: int) < 0) \<and>
   (1 < length example_shape \<and>
      ((- 4 :: int) = - int (length example_shape) \<or> (- 4 :: int) = 1 - int (length example_shape))) \<and>
   ConvertArmMaxPoolV8Layout_callback example_host (example_pool_graph (example_max_pool_v8 (- 4))) 1 =
     Inr (False, example_pool_graph (example_max_pool_v8 (- 4)))"
proof -
  let ?G = "example_pool_graph (example_max_pool_v8 1)"
  let ?H = "example_pool_graph (example_max_pool_v8 (- 4))"
  have n: "1 < length ?G"
    and tc: "\<not> transformation_callback example_host ?G 1"
    and op: "node_op (?G ! 1) =
       ArmMaxPoolV8 [2, 2] [1, 1] [0, 0] [0, 0] [2, 2] FLOOR EXPLICIT i32 1 []"
    and sh: "get_output_partial_shape (?G ! 1) 0 = Inr example_shape"
    and len: "length example_shape = 4"
    and ins: "inputs (?G ! 1) = (0, 0) # []"
    and op': "node_op (?H ! 1) =
       ArmMaxPoolV8 [2, 2] [1, 1] [0, 0] [0, 0] [2, 2] FLOOR EXPLICIT i32 (- 4) []"
    and sh': "get_output_partial_shape (?H ! 1) 0 = Inr example_shape"
    by (simp_all add: get_output_partial_shape_def example_defs)
  have r: "(4::nat) = 4 \<or> (4::nat) = 5" by simp
  have ax: "(1::int) \<le> 1" "(0::int) \<le> 1 \<or> (1::int) < - int 4" by simp_all
  have valid: "- int (length example_shape) \<le> 1" and valid': "- int (length example_shape) \<le> - 4"
    by (simp_all add: len)
  have guard: "1 < (- 4 :: int) \<or> (- 4 :: int) < 0"
    by simp
  have equiv: "1 < length example_shape \<and>
      ((- 4 :: int) = - int (length example_shape) \<or> (- 4 :: int) = 1 - int (length example_shape))"
    by (simp add: len)
  from v8_rewrite [OF n tc op sh len r ax ins]
  obtain g' where g': "ConvertArmMaxPoolV8Layout_callback example_host ?G 1 = Inr (True, g')"
    by auto
  from maxpool_v8_axis_guard [OF op sh valid, of example_host g', THEN conjunct1, rule_format, OF g']
  have 1: "(1::int) = 0 \<or> (1::int) = 1" .
  from maxpool_v8_axis_guard [OF op' sh' valid', THEN conjunct2, THEN conjunct1, rule_format,
      OF guard]
  have 2: "ConvertArmMaxPoolV8Layout_callback example_host ?H 1 = Inr (False, ?H)" .
  from maxpool_v8_axis_guard [OF op' sh' valid', THEN conjunct2, THEN conjunct2, rule_format,
      OF equiv]
  have 4: "ConvertArmMaxPoolV8Layout_callback example_host ?H 1 = Inr (False, ?H)" .
  from g' have 3: "ConvertArmMaxPoolV8Layout_callback example_host ?G 1 =
     Inr (True, snd (projr (ConvertArmMaxPoolV8Layout_callback example_host ?G 1)))"
    by simp
  from op sh valid 3 1 op' sh' valid' guard equiv [THEN conjunct1] equiv [THEN conjunct2] 2 4
  show ?thesis
    by (intro conjI)
qed

subsection \<open>The bias of a convolution\<close>

text \<open>
  C7: when the matched convolution has more than two inputs, the replacement convolution
  takes the third one as it is: its inputs are the transposed activations, the
  transposed weights and the very value the original's third input was connected to,
  and the only Transpose nodes the pass adds are those on the activations, on the
  weights and on the output.
\<close>

theorem convolution_bias_is_connected_directly:
  assumes "n < length g" and "\<not> transformation_callback h g n"
    and "node_op (g ! n) = ArmConvolution s pb pe d ap os"
    and "get_output_partial_shape (g ! n) 0 = Inr shape" and "length shape = rank"
    and "rank = 4 \<or> rank = 5"
    and "inputs (g ! n) = in0 # in1 # in2 # ins"
    and "\<forall>src \<in> set (inputs (g ! n)). fst src \<noteq> n"
  shows "\<exists>g'. ConvertArmConvolutionLayout_callback h g n = Inr (True, g') \<and>
      map node_op (drop (length g) g') =
        [Constant i32 [length (to_channel_last rank)] (to_channel_last rank), Transpose,
         Constant i32 [length (to_channel_last rank)] (to_channel_last rank), Transpose,
         ArmConvolution s pb pe d ap (apply_transpose (to_channel_last rank) shape),
         Constant i32 [length (to_channel_first rank)] (to_channel_first rank), Transpose] \<and>
      is_transpose g' (length g + 1) in0 (to_channel_last rank) \<and>
      is_transpose g' (length g + 3) in1 (to_channel_last rank) \<and>
      inputs (g' ! (length g + 4)) = [(length g + 1, 0), (length g + 3, 0), in2] \<and>
      is_transpose g' (length g + 6) (length g + 4, 0) (to_channel_first rank)"
proof -
  from assms(7,8) have "fst in0 \<noteq> n" "fst in1 \<noteq> n" "\<forall>src \<in> set (in2 # ins). fst src \<noteq> n"
    by simp_all
  from conv_rewrite [OF assms(1,2,3,4,5,6,7) this]
  show ?thesis
    by (elim exE conjE, intro exI conjI) (assumption | simp)+
qed

theorem convolution_bias_is_connected_directly_witness:
  "inputs (example_conv_graph ! 3) = [(0, 0), (1, 0), (2, 0)] \<and>
   (\<exists>g'. ConvertArmConvolutionLayout_callback example_host example_conv_graph 3 = Inr (True, g') \<and>
      map node_op (drop (length example_conv_graph) g') =
        [Constant i32 [length (to_channel_last 4)] (to_channel_last 4), Transpose,
         Constant i32 [length (to_channel_last 4)] (to_channel_last 4), Transpose,
         ArmConvolution [1, 1] [1, 1] [1, 1] [1, 1] EXPLICIT
           (apply_transpose (to_channel_last 4) example_shape),
         Constant i32 [length (to_channel_first 4)] (to_channel_first 4), Transpose] \<and>
      is_transpose g' (length example_conv_graph + 1) (0, 0) (to_channel_last 4) \<and>
      is_transpose g' (length example_conv_graph + 3) (1, 0) (to_channel_last 4) \<and>
      inputs (g' ! (length example_conv_graph + 4)) =
        [(length example_conv_graph + 1, 0), (length example_conv_graph + 3, 0), (2, 0)] \<and>
      is_transpose g' (length example_conv_graph + 6) (length example_conv_graph + 4, 0)
        (to_channel_first 4))"
proof -
  have n: "3 < length example_conv_graph"
    and tc: "\<not> transformation_callback example_host example_conv_graph 3"
    and op: "node_op (example_conv_graph ! 3) = ArmConvolution [1, 1] [1, 1] [1, 1] [1, 1] EXPLICIT []"
    and sh: "get_output_partial_shape (example_conv_graph ! 3) 0 = Inr example_shape"
    and len: "length example_shape = 4"
    and ins: "inputs (example_conv_graph ! 3) = (0, 0) # (1, 0) # (2, 0) # []"
    and loop: "\<forall>src \<in> set (inputs (example_conv_graph ! 3)). fst src \<noteq> 3"
    by (simp_all add: get_output_partial_shape_def example_defs)
  have r: "(4::nat) = 4 \<or> (4::nat) = 5" by simp
  from ins convolution_bias_is_connected_directly [OF n tc op sh len r ins loop]
  show ?thesis
    by (intro conjI)
qed

section \<open>Properties of the Mod kernel\<close>

text \<open>
  C8: for every pair of input tensors and every output element, the call operator of
  \<open>Mod\<close> computes the modulo of the two input elements that the broadcast mappers
  select for that output element.
\<close>

theorem Mod_computes_elementwise_modulo:
  assumes "i < out_num_elements"
  shows "length (Mod_call (Mod_ctor element_type max_threads_per_block out_num_elements)
                   in0 in0_mapper in1 in1_mapper) = out_num_elements \<and>
         Mod_call (Mod_ctor element_type max_threads_per_block out_num_elements)
           in0 in0_mapper in1 in1_mapper ! i =
         (in0 ! srcIndex in0_mapper i) mod (in1 ! srcIndex in1_mapper i)"
  using assms
  by (simp add: Mod_call_def Mod_ctor_def ElementwiseBinary_call_def ElementwiseBinary_ctor_def
      ModOpImpl_def)

theorem Mod_computes_elementwise_modulo_witness:
  "(2::nat) < 4 \<and>
   length (Mod_call (Mod_ctor u32 256 4) [7, 8, 9, 10 :: nat] \<lparr>srcIndex = (\<lambda>i. i)\<rparr>
             [4] \<lparr>srcIndex = (\<lambda>i. 0)\<rparr>) = 4 \<and>
   Mod_call (Mod_ctor u32 256 4) [7, 8, 9, 10 :: nat] \<lparr>srcIndex = (\<lambda>i. i)\<rparr>
     [4] \<lparr>srcIndex = (\<lambda>i. 0)\<rparr> ! 2 = 1"
proof -
  have h: "(2::nat) < 4" by simp
  from h Mod_computes_elementwise_modulo [OF h, of u32 256 "[7, 8, 9, 10 :: nat]"
      "\<lparr>srcIndex = (\<lambda>i. i)\<rparr>" "[4]" "\<lparr>srcIndex = (\<lambda>i. 0)\<rparr>"]
  show ?thesis
    by simp
qed

text \<open>
  C9: \<open>Mod\<close> behaves as the generic element-wise binary dispatcher instantiated with
  the modulo operation: its constructor builds the \<open>ElementwiseBinary\<close> member from
  its own arguments and its call operator returns what the member returns.
\<close>

theorem Mod_is_ElementwiseBinary_of_ModOpImpl:
  "impl (Mod_ctor element_type max_threads_per_block out_num_elements) =
     ElementwiseBinary_ctor element_type max_threads_per_block out_num_elements \<and>
   Mod_call (Mod_ctor element_type max_threads_per_block out_num_elements)
     in0 in0_mapper in1 in1_mapper =
   ElementwiseBinary_call ModOpImpl
     (ElementwiseBinary_ctor element_type max_threads_per_block out_num_elements)
     in0 in0_mapper in1 in1_mapper"
  by (simp add: Mod_call_def Mod_ctor_def)

end
